theory Spec2Isabelle
  imports Complex_Main
begin

section \<open>Python values used by bot.py\<close>

text \<open>
  Exceptions are values.  The constructors name the exceptions that the calls of
  \<^verbatim>\<open>bot.py\<close> can raise: a missing dictionary key, \<^verbatim>\<open>int()\<close> on unparseable text,
  division by zero, an integer too large for a float, a method that an object does not
  have, a failing \<^verbatim>\<open>ffmpeg.probe\<close> (or a probe answer without a usable duration), a
  failing \<^verbatim>\<open>ffmpeg.run\<close>, a failing \<^verbatim>\<open>send_video\<close>, a text message that Telegram does
  not take, a file that is not there, a file that cannot be deleted, and a failing
  download.
\<close>

datatype exn =
    KeyError string
  | ValueError
  | ZeroDivisionError
  | OverflowError
  | AttributeError
  | ProbeError
  | TranscodeError
  | DeliveryError
  | TelegramError
  | FileNotFoundError string
  | OSError string
  | DownloadError

text \<open>\<^verbatim>\<open>str(n)\<close> for an integer, as the f-strings of lines 101 and 141 use it.\<close>

definition digit_char :: "nat \<Rightarrow> char" where
  "digit_char d = ''0123456789'' ! d"

fun str_nat :: "nat \<Rightarrow> string" where
  "str_nat n = (if n < 10 then [digit_char n] else str_nat (n div 10) @ [digit_char (n mod 10)])"

declare str_nat.simps [simp del]

definition str_int :: "int \<Rightarrow> string" where
  "str_int i = (if i < 0 then CHR ''-'' # str_nat (nat (- i)) else str_nat (nat i))"

text \<open>
  The text of a message is a Python \<^verbatim>\<open>str\<close>: a list of Unicode code points.  The texts
  that the handlers only store and pass on (title, channel, colour, paths) are kept as
  strings; the text of the duration, which \<^verbatim>\<open>int()\<close> reads character by character, is
  a list of code points.  \<open>text_of\<close> is the text with the characters of a string.
\<close>

type_synonym ustr = "nat list"

definition text_of :: "string \<Rightarrow> ustr" where
  "text_of s = map of_char s"

text \<open>
  \<^verbatim>\<open>int(text)\<close> in base 10, as CPython computes it, in two steps.

  First the text is brought to ASCII.  A text of code points below 128 is taken as it
  is.  In any other text a code point below 127 is kept, a code point that Unicode
  classifies as white space becomes a blank, a code point with a Unicode decimal value
  becomes that digit, and at the first code point of neither kind the text is cut and
  ends with a question mark.  The two Unicode tables are not part of the program; they
  are parameters: \<open>space\<close> tells the white space and \<open>decimal\<close> the decimal value.

  Then the ASCII text is read: blank, tab, line feed, vertical tab, form feed and
  carriage return are skipped at both ends (the separators 0x1C to 0x1F are not), one
  sign may follow, then comes a non-empty run of digits in which single underscores may
  stand between two digits.  \<open>None\<close> is the \<^verbatim>\<open>ValueError\<close>.

  The interpreter's limit on the number of digits (4300 by default, where it exists)
  cannot be reached: a Telegram message has at most 4096 characters.
\<close>

fun transform_decimal_and_space :: "(nat \<Rightarrow> bool) \<Rightarrow> (nat \<Rightarrow> nat option) \<Rightarrow> ustr \<Rightarrow> string" where
  "transform_decimal_and_space space decimal [] = []"
| "transform_decimal_and_space space decimal (ch # cs) =
     (if ch < 127 then char_of ch # transform_decimal_and_space space decimal cs
      else if space ch then CHR '' '' # transform_decimal_and_space space decimal cs
      else (case decimal ch of
              None \<Rightarrow> ''?''
            | Some d \<Rightarrow> char_of (48 + d) # transform_decimal_and_space space decimal cs))"

definition to_ascii :: "(nat \<Rightarrow> bool) \<Rightarrow> (nat \<Rightarrow> nat option) \<Rightarrow> ustr \<Rightarrow> string" where
  "to_ascii space decimal t =
     (if list_all (\<lambda>ch. ch < 128) t then map char_of t
      else transform_decimal_and_space space decimal t)"

definition is_space :: "char \<Rightarrow> bool" where
  "is_space c = (c \<in> set [CHR '' '', CHR 0x09, CHR 0x0A, CHR 0x0B, CHR 0x0C, CHR 0x0D])"

definition is_digit :: "char \<Rightarrow> bool" where
  "is_digit c = (c \<in> set ''0123456789'')"

definition digit_val :: "char \<Rightarrow> nat" where
  "digit_val c = (of_char c :: nat) - 48"

definition strip :: "string \<Rightarrow> string" where
  "strip s = rev (dropWhile is_space (rev (dropWhile is_space s)))"

fun digits_acc :: "nat \<Rightarrow> string \<Rightarrow> nat option" where
  "digits_acc acc [] = Some acc"
| "digits_acc acc (c # cs) =
     (if c = CHR ''_'' then
        (case cs of [] \<Rightarrow> None
         | d # ds \<Rightarrow> if is_digit d then digits_acc acc cs else None)
      else if is_digit c then digits_acc (acc * 10 + digit_val c) cs
      else None)"

definition parse_digits :: "string \<Rightarrow> nat option" where
  "parse_digits s =
     (case s of [] \<Rightarrow> None
      | c # cs \<Rightarrow> if is_digit c then digits_acc 0 s else None)"

definition long_from_string :: "string \<Rightarrow> int option" where
  "long_from_string s =
     (case strip s of
        [] \<Rightarrow> None
      | c # cs \<Rightarrow>
          if c = CHR ''-'' then map_option (\<lambda>n. - int n) (parse_digits cs)
          else if c = CHR ''+'' then map_option int (parse_digits cs)
          else map_option int (parse_digits (c # cs)))"

definition py_int :: "(nat \<Rightarrow> bool) \<Rightarrow> (nat \<Rightarrow> nat option) \<Rightarrow> ustr \<Rightarrow> int option" where
  "py_int space decimal t = long_from_string (to_ascii space decimal t)"

text \<open>\<^verbatim>\<open>range(n)\<close>: the integers from 0 up to \<open>n - 1\<close>, none when \<open>n \<le> 0\<close>.\<close>

definition py_range :: "int \<Rightarrow> int list" where
  "py_range n = map int [0..<nat n]"

section \<open>The conversation's data\<close>

text \<open>The five states of line 23, and \<^verbatim>\<open>ConversationHandler.END\<close>.\<close>

datatype conv_state = GET_VIDEO | GET_TITLE | GET_CHANNEL | GET_DURATION | GET_COLOR | END

text \<open>
  \<^verbatim>\<open>context.user_data\<close>: a dictionary with the five keys the handlers store.  A key
  that has not been stored is \<open>None\<close>; reading it raises \<^verbatim>\<open>KeyError\<close>.
\<close>

record user_data =
  video_path :: "string option"
  title :: "string option"
  channel :: "string option"
  duration :: "int option"
  color :: "string option"

section \<open>The ffmpeg graph of one clip (lines 106 to 150)\<close>

text \<open>
  The position arguments of \<^verbatim>\<open>overlay\<close> and \<^verbatim>\<open>drawtext\<close> are ffmpeg expressions.  The
  source writes them as strings; the model keeps their syntax tree:
  \<^verbatim>\<open>'(w-text_w)/2'\<close> is \<open>EDiv (ESub (EVar ''w'') (EVar ''text_w'')) (ENum 2)\<close>.
\<close>

datatype ffexpr =
    EVar string
  | ENum int
  | EAdd ffexpr ffexpr
  | ESub ffexpr ffexpr
  | EDiv ffexpr ffexpr

text \<open>
  Line 106: the node \<^verbatim>\<open>ffmpeg.input(video_path, ss=start_time, t=clip_duration)\<close>, the
  window of the source that a clip asks for.
\<close>

record input_node =
  in_path :: string
  in_ss :: int
  in_t :: int

text \<open>
  A video stream of such a node, with the size it has been scaled to, if any.
\<close>

record video_stream =
  vs_input :: input_node
  vs_scale :: "(int \<times> int) option"

definition stream_video :: "input_node \<Rightarrow> video_stream" where
  "stream_video inp = \<lparr>vs_input = inp, vs_scale = None\<rparr>"

record box_style =
  boxcolor :: string
  boxborderw :: int

text \<open>One \<^verbatim>\<open>ffmpeg.drawtext\<close> call.  \<open>dt_box = None\<close>: no \<^verbatim>\<open>box\<close> argument was passed.\<close>

record drawtext =
  dt_text :: string
  dt_x :: ffexpr
  dt_y :: ffexpr
  dt_fontsize :: int
  dt_fontcolor :: string
  dt_fontfile :: string
  dt_box :: "box_style option"

text \<open>
  The output node that line 151 hands to \<^verbatim>\<open>ffmpeg.run\<close>: the video and audio streams of
  the cut, the \<^verbatim>\<open>lavfi\<close> colour source \<^verbatim>\<open>color=c=<color>:s=1080x1920\<close> with its own \<^verbatim>\<open>t\<close>,
  the overlay position, the three text layers in the order they are drawn, and the
  output file with its encoder options.
\<close>

record composition =
  video :: video_stream
  audio :: input_node
  bg_color :: string
  bg_width :: int
  bg_height :: int
  bg_t :: int
  overlay_x :: ffexpr
  overlay_y :: ffexpr
  layers :: "drawtext list"
  out_file :: string
  vcodec :: string
  acodec :: string
  preset :: string
  movflags :: string

definition font_path :: string where
  "font_path = ''fonts/LiberationSans-Regular.ttf''"

definition centred_x :: ffexpr where
  "centred_x = EDiv (ESub (EVar ''w'') (EVar ''text_w'')) (ENum 2)"

text \<open>Lines 120 to 128.\<close>

definition title_layer :: "string \<Rightarrow> drawtext" where
  "title_layer ttl =
     \<lparr>dt_text = ttl,
      dt_x = centred_x,
      dt_y = ESub (EDiv (ESub (EVar ''h'') (EVar ''text_h'')) (ENum 2)) (ENum 700),
      dt_fontsize = 70,
      dt_fontcolor = ''black'',
      dt_fontfile = font_path,
      dt_box = None\<rparr>"

text \<open>Lines 129 to 138.\<close>

definition channel_layer :: "string \<Rightarrow> drawtext" where
  "channel_layer chn =
     \<lparr>dt_text = chn,
      dt_x = ENum 40,
      dt_y = ENum 40,
      dt_fontsize = 40,
      dt_fontcolor = ''white'',
      dt_fontfile = font_path,
      dt_box = Some \<lparr>boxcolor = ''black@0.5'', boxborderw = 10\<rparr>\<rparr>"

text \<open>Lines 139 to 147.\<close>

definition part_layer :: "int \<Rightarrow> drawtext" where
  "part_layer part_num =
     \<lparr>dt_text = ''PART '' @ str_int part_num,
      dt_x = centred_x,
      dt_y = EAdd (EDiv (ESub (EVar ''h'') (EVar ''text_h'')) (ENum 2)) (ENum 700),
      dt_fontsize = 60,
      dt_fontcolor = ''black'',
      dt_fontfile = font_path,
      dt_box = None\<rparr>"

text \<open>Line 101.\<close>

definition output_filename :: "int \<Rightarrow> int \<Rightarrow> string" where
  "output_filename part_num user_id =
     ''part_'' @ str_int part_num @ ''_'' @ str_int user_id @ ''.mp4''"

text \<open>Lines 111 to 150, from the streams of lines 107 and 108.\<close>

definition ffmpeg_output ::
  "video_stream \<Rightarrow> input_node \<Rightarrow> int \<Rightarrow> string \<Rightarrow> string \<Rightarrow> string \<Rightarrow> int \<Rightarrow> string \<Rightarrow> composition" where
  "ffmpeg_output video_clip audio_clip clip_duration col ttl chn part_num out =
     \<lparr>video = video_clip,
      audio = audio_clip,
      bg_color = col,
      bg_width = 1080,
      bg_height = 1920,
      bg_t = clip_duration,
      overlay_x = EDiv (ESub (EVar ''W'') (EVar ''w'')) (ENum 2),
      overlay_y = EDiv (ESub (EVar ''H'') (EVar ''h'')) (ENum 2),
      layers = [title_layer ttl, channel_layer chn, part_layer part_num],
      out_file = out,
      vcodec = ''libx264'',
      acodec = ''aac'',
      preset = ''fast'',
      movflags = ''frag_keyframe+empty_moov''\<rparr>"




section \<open>The world outside the handlers\<close>

text \<open>The texts the bot sends, one constructor for each template with what it interpolates.\<close>

datatype message =
    MsgGreeting
  | MsgAskTitle
  | MsgAskChannel
  | MsgAskDuration
  | MsgInvalidNumber
  | MsgAskColor
  | MsgAllSet
  | MsgDetected real int
  | MsgProcessing int int
  | MsgAllDone
  | MsgError exn
  | MsgCancelled

text \<open>
  What a run does to the outside, in the order it happened: messages that reached the
  chat and messages that Telegram did not take, log lines, the download, the probe, each
  cut of the source asked of the ffmpeg library (line 106), each transcoder call with
  the graph it got, each clip the sink took or refused, each existence test and each
  deletion.
\<close>

datatype event =
    Reply message
  | ReplyFailed message
  | LogError exn
  | LogInfo
  | Downloaded string
  | Probe string
  | Input string int int
  | Run composition
  | Sent string
  | SendFailed string
  | Exists string
  | Removed string
  | RemoveFailed string

record world =
  files :: "string set"
  trace :: "event list"

text \<open>
  What the handlers rely on and \<^verbatim>\<open>bot.py\<close> does not contain, as parameters:
  what the probe answers for a path (a finite duration, or an exception);
  \<open>round_double\<close>, the rounding of a real number to the nearest binary64 float, which
  Python's float arithmetic applies to every result;
  whether the transcoder succeeds on a graph, whether the sink takes a file, whether the
  file system lets a file be deleted, whether a download succeeds;
  whether Telegram takes a text message, which may depend on everything that happened
  before;
  and the two Unicode tables that \<^verbatim>\<open>int()\<close> consults.
\<close>

record env =
  probe :: "string \<Rightarrow> exn + real"
  round_double :: "real \<Rightarrow> real"
  run_ok :: "composition \<Rightarrow> bool"
  send_ok :: "string \<Rightarrow> bool"
  remove_ok :: "string \<Rightarrow> bool"
  download_ok :: "string \<Rightarrow> bool"
  reply_ok :: "event list \<Rightarrow> message \<Rightarrow> bool"
  uc_space :: "nat \<Rightarrow> bool"
  uc_decimal :: "nat \<Rightarrow> nat option"

type_synonym 'a io = "world \<Rightarrow> (exn + 'a) \<times> world"

definition io_return :: "'a \<Rightarrow> 'a io" where
  "io_return a w = (Inr a, w)"

definition io_raise :: "exn \<Rightarrow> 'a io" where
  "io_raise e w = (Inl e, w)"

definition io_bind :: "'a io \<Rightarrow> ('a \<Rightarrow> 'b io) \<Rightarrow> 'b io" where
  "io_bind m f w = (case m w of (Inl e, w') \<Rightarrow> (Inl e, w') | (Inr a, w') \<Rightarrow> f a w')"

definition emit :: "event \<Rightarrow> world \<Rightarrow> world" where
  "emit e w = w\<lparr>trace := trace w @ [e]\<rparr>"

definition lookup :: "string \<Rightarrow> 'a option \<Rightarrow> 'a io" where
  "lookup key v = (case v of None \<Rightarrow> io_raise (KeyError key) | Some a \<Rightarrow> io_return a)"

text \<open>
  \<^verbatim>\<open>await update.message.reply_text(...)\<close>: the message reaches the chat, or the call
  raises.
\<close>

definition reply_text :: "env \<Rightarrow> message \<Rightarrow> unit io" where
  "reply_text en m w =
     (if reply_ok en (trace w) m then (Inr (), emit (Reply m) w)
      else (Inl TelegramError, emit (ReplyFailed m) w))"

definition logger_error :: "exn \<Rightarrow> unit io" where
  "logger_error e w = (Inr (), emit (LogError e) w)"

definition logger_info :: "unit io" where
  "logger_info w = (Inr (), emit LogInfo w)"

text \<open>Lines 92 and 93: the probe and the conversion of its duration field.\<close>

definition ffmpeg_probe :: "env \<Rightarrow> string \<Rightarrow> real io" where
  "ffmpeg_probe en p w = (probe en p, emit (Probe p) w)"

text \<open>Line 106: \<^verbatim>\<open>ffmpeg.input\<close> describes a cut of the source.\<close>

definition ffmpeg_input :: "string \<Rightarrow> int \<Rightarrow> int \<Rightarrow> input_node io" where
  "ffmpeg_input p ss t w = (Inr \<lparr>in_path = p, in_ss = ss, in_t = t\<rparr>, emit (Input p ss t) w)"

text \<open>
  Line 107: \<^verbatim>\<open>input_stream.video.scale(1000, -1)\<close>.  The streams of the ffmpeg-python
  library have no attribute \<^verbatim>\<open>scale\<close> (the library reaches ffmpeg's scale filter as
  \<^verbatim>\<open>.filter('scale', w, h)\<close>), so the attribute lookup raises \<^verbatim>\<open>AttributeError\<close> for
  every stream and every size.
\<close>

definition stream_scale :: "video_stream \<Rightarrow> int \<Rightarrow> int \<Rightarrow> video_stream io" where
  "stream_scale v width height = io_raise AttributeError"

text \<open>
  Line 151.  All or nothing: on success the output file exists, on failure the files are
  as before.
\<close>

definition ffmpeg_run :: "env \<Rightarrow> composition \<Rightarrow> unit io" where
  "ffmpeg_run en c w =
     (if run_ok en c
      then (Inr (), (emit (Run c) w)\<lparr>files := insert (out_file c) (files w)\<rparr>)
      else (Inl TranscodeError, emit (Run c) w))"

text \<open>Lines 154 and 155: \<^verbatim>\<open>open\<close> needs the file, then the sink takes it or refuses it.\<close>

definition send_video :: "env \<Rightarrow> string \<Rightarrow> unit io" where
  "send_video en p w =
     (if p \<notin> files w then (Inl (FileNotFoundError p), w)
      else if send_ok en p then (Inr (), emit (Sent p) w)
      else (Inl DeliveryError, emit (SendFailed p) w))"

definition os_remove :: "env \<Rightarrow> string \<Rightarrow> unit io" where
  "os_remove en p w =
     (if p \<notin> files w then (Inl (FileNotFoundError p), w)
      else if remove_ok en p then (Inr (), (emit (Removed p) w)\<lparr>files := files w - {p}\<rparr>)
      else (Inl (OSError p), emit (RemoveFailed p) w))"

definition os_path_exists :: "string \<Rightarrow> bool io" where
  "os_path_exists p w = (Inr (p \<in> files w), emit (Exists p) w)"

definition download_to_drive :: "env \<Rightarrow> string \<Rightarrow> unit io" where
  "download_to_drive en p w =
     (if download_ok en p then (Inr (), (emit (Downloaded p) w)\<lparr>files := insert p (files w)\<rparr>)
      else (Inl DownloadError, w))"

text \<open>A \<^verbatim>\<open>for\<close> loop: the first exception ends it.\<close>

fun for_each :: "('a \<Rightarrow> unit io) \<Rightarrow> 'a list \<Rightarrow> unit io" where
  "for_each body [] w = (Inr (), w)"
| "for_each body (i # is) w =
     (case body i w of
        (Inl e, w') \<Rightarrow> (Inl e, w')
      | (Inr u, w') \<Rightarrow> for_each body is w')"

text \<open>
  \<^verbatim>\<open>try: body except Exception as e: handler(e) finally: final\<close>.  The handler runs on
  an exception of the body; \<open>final\<close> runs in every case, also when the handler raises,
  and an exception of \<open>final\<close> replaces the outcome.
\<close>

definition try_except_finally :: "unit io \<Rightarrow> (exn \<Rightarrow> unit io) \<Rightarrow> unit io \<Rightarrow> unit io" where
  "try_except_finally body handler final w =
     (case (case body w of (Inl e, w1) \<Rightarrow> handler e w1 | (Inr u, w1) \<Rightarrow> (Inr u, w1)) of
        (r, w2) \<Rightarrow> (case final w2 of (Inl e', w3) \<Rightarrow> (Inl e', w3) | (Inr u, w3) \<Rightarrow> (r, w3)))"

text \<open>
  The end of a handler: the state it returns when the calls before the \<^verbatim>\<open>return\<close>
  did not raise, with the dictionary as those calls left it.
\<close>

definition returning ::
  "conv_state \<Rightarrow> user_data \<Rightarrow> (exn + unit) \<times> world \<Rightarrow> (exn + conv_state) \<times> user_data \<times> world" where
  "returning s ud rw = (case rw of (Inl e, w') \<Rightarrow> (Inl e, ud, w') | (Inr u, w') \<Rightarrow> (Inr s, ud, w'))"

section \<open>The handlers\<close>

definition start :: "env \<Rightarrow> user_data \<Rightarrow> world \<Rightarrow> (exn + conv_state) \<times> user_data \<times> world" where
  "start en ud w = returning GET_VIDEO ud (reply_text en MsgGreeting w)"

text \<open>Lines 37 to 48; the file id is a parameter, the path is made from it on line 40.\<close>

definition get_video ::
  "env \<Rightarrow> string \<Rightarrow> user_data \<Rightarrow> world \<Rightarrow> (exn + conv_state) \<times> user_data \<times> world" where
  "get_video en file_id ud w =
     (let p = file_id @ ''.mp4'' in
      case download_to_drive en p w of
        (Inl e, w') \<Rightarrow> (Inl e, ud, w')
      | (Inr u, w') \<Rightarrow>
          returning GET_TITLE (ud\<lparr>video_path := Some p\<rparr>) (reply_text en MsgAskTitle w'))"

definition get_title ::
  "env \<Rightarrow> string \<Rightarrow> user_data \<Rightarrow> world \<Rightarrow> (exn + conv_state) \<times> user_data \<times> world" where
  "get_title en msg ud w =
     returning GET_CHANNEL (ud\<lparr>title := Some msg\<rparr>) (reply_text en MsgAskChannel w)"

definition get_channel ::
  "env \<Rightarrow> string \<Rightarrow> user_data \<Rightarrow> world \<Rightarrow> (exn + conv_state) \<times> user_data \<times> world" where
  "get_channel en msg ud w =
     returning GET_DURATION (ud\<lparr>channel := Some msg\<rparr>) (reply_text en MsgAskDuration w)"

text \<open>Lines 62 to 74: the only test on the duration is that \<^verbatim>\<open>int()\<close> accepts the text.\<close>

definition get_duration ::
  "env \<Rightarrow> ustr \<Rightarrow> user_data \<Rightarrow> world \<Rightarrow> (exn + conv_state) \<times> user_data \<times> world" where
  "get_duration en msg ud w =
     (case py_int (uc_space en) (uc_decimal en) msg of
        None \<Rightarrow> returning GET_DURATION ud (reply_text en MsgInvalidNumber w)
      | Some d \<Rightarrow> returning GET_COLOR (ud\<lparr>duration := Some d\<rparr>) (reply_text en MsgAskColor w))"

text \<open>
  Line 94, \<^verbatim>\<open>math.ceil(total_duration / clip_duration)\<close> with a float and an integer.
  The integer is converted to a float first, which raises \<^verbatim>\<open>OverflowError\<close> when its
  magnitude rounds beyond the largest float, that is from \<open>2 ^ 1024 - 2 ^ 970\<close> on; a zero
  divisor raises \<^verbatim>\<open>ZeroDivisionError\<close>; the quotient of the two floats is rounded to a
  float, and \<^verbatim>\<open>math.ceil\<close> gives its ceiling as an integer.
\<close>

definition num_clips :: "env \<Rightarrow> real \<Rightarrow> int \<Rightarrow> exn + int" where
  "num_clips en total_duration clip_duration =
     (if 2 ^ 1024 - 2 ^ 970 \<le> \<bar>clip_duration\<bar> then Inl OverflowError
      else if clip_duration = 0 then Inl ZeroDivisionError
      else Inr \<lceil>round_double en
                 (total_duration / round_double en (real_of_int clip_duration))\<rceil>)"

definition io_of :: "exn + 'a \<Rightarrow> 'a io" where
  "io_of r w = (r, w)"

text \<open>The body of the loop, lines 99 to 158, for the index \<open>i\<close>.\<close>

definition process_clip ::
  "env \<Rightarrow> user_data \<Rightarrow> int \<Rightarrow> string \<Rightarrow> int \<Rightarrow> int \<Rightarrow> int \<Rightarrow> unit io" where
  "process_clip en ud user_id vpath clip_duration n i =
     (let part_num = i + 1;
          start_time = i * clip_duration;
          out = output_filename part_num user_id
      in io_bind (reply_text en (MsgProcessing part_num n)) (\<lambda>_.
         io_bind (ffmpeg_input vpath start_time clip_duration) (\<lambda>input_stream.
         io_bind (stream_scale (stream_video input_stream) 1000 (- 1)) (\<lambda>video_clip.
         io_bind (lookup ''color'' (color ud)) (\<lambda>col.
         io_bind (lookup ''title'' (title ud)) (\<lambda>ttl.
         io_bind (lookup ''channel'' (channel ud)) (\<lambda>chn.
         io_bind (ffmpeg_run en
                    (ffmpeg_output video_clip input_stream clip_duration col ttl chn part_num out)) (\<lambda>_.
         io_bind (send_video en out) (\<lambda>_.
         os_remove en out)))))))))"

text \<open>The body of the \<^verbatim>\<open>try\<close>, lines 87 to 160.\<close>

definition core_processing :: "env \<Rightarrow> user_data \<Rightarrow> int \<Rightarrow> unit io" where
  "core_processing en ud user_id =
     io_bind (lookup ''video_path'' (video_path ud)) (\<lambda>vpath.
     io_bind (lookup ''duration'' (duration ud)) (\<lambda>clip_duration.
     io_bind (ffmpeg_probe en vpath) (\<lambda>total_duration.
     io_bind (io_of (num_clips en total_duration clip_duration)) (\<lambda>n.
     io_bind (reply_text en (MsgDetected total_duration n)) (\<lambda>_.
     io_bind (for_each (process_clip en ud user_id vpath clip_duration n) (py_range n)) (\<lambda>_.
     reply_text en MsgAllDone))))))"

text \<open>The \<^verbatim>\<open>except\<close> clause, lines 162 to 164.\<close>

definition report_error :: "env \<Rightarrow> exn \<Rightarrow> unit io" where
  "report_error en e = io_bind (logger_error e) (\<lambda>_. reply_text en (MsgError e))"

text \<open>The \<^verbatim>\<open>finally\<close> clause, lines 165 to 168: the clean-up of the uploaded video.\<close>

definition session_cleanup :: "env \<Rightarrow> user_data \<Rightarrow> unit io" where
  "session_cleanup en ud =
     io_bind (lookup ''video_path'' (video_path ud)) (\<lambda>vpath.
     io_bind (os_path_exists vpath) (\<lambda>ex.
     if ex then os_remove en vpath else io_return ()))"

text \<open>The \<^verbatim>\<open>try\<close> statement, lines 86 to 168.\<close>

definition process_job :: "env \<Rightarrow> user_data \<Rightarrow> int \<Rightarrow> unit io" where
  "process_job en ud user_id =
     try_except_finally (core_processing en ud user_id) (report_error en) (session_cleanup en ud)"

text \<open>Lines 76 to 170.  The first reply, lines 80 to 83, is outside the \<^verbatim>\<open>try\<close>.\<close>

definition get_color_and_process ::
  "env \<Rightarrow> int \<Rightarrow> string \<Rightarrow> user_data \<Rightarrow> world \<Rightarrow> (exn + conv_state) \<times> user_data \<times> world" where
  "get_color_and_process en user_id msg ud w =
     (let ud' = ud\<lparr>color := Some msg\<rparr> in
      returning END ud' (io_bind (reply_text en MsgAllSet) (\<lambda>_. process_job en ud' user_id) w))"

text \<open>Lines 173 to 184.\<close>

definition cancel ::
  "env \<Rightarrow> user_data \<Rightarrow> world \<Rightarrow> (exn + conv_state) \<times> user_data \<times> world" where
  "cancel en ud w =
     returning END ud
       (io_bind logger_info (\<lambda>_.
        io_bind (case video_path ud of
                   None \<Rightarrow> io_return ()
                 | Some vpath \<Rightarrow>
                     io_bind (os_path_exists vpath) (\<lambda>ex.
                     if ex then os_remove en vpath else io_return ())) (\<lambda>_.
        reply_text en MsgCancelled)) w)"

section \<open>Notions used to state the results\<close>

text \<open>
  What get_color_and_process adds to the trace, and the files it leaves; the same for
  \<^verbatim>\<open>cancel\<close>.
\<close>

definition new_events :: "world \<Rightarrow> world \<Rightarrow> event list" where
  "new_events w w' = drop (length (trace w)) (trace w')"

definition job_events :: "env \<Rightarrow> int \<Rightarrow> string \<Rightarrow> user_data \<Rightarrow> world \<Rightarrow> event list" where
  "job_events en user_id msg ud w =
     new_events w (snd (snd (get_color_and_process en user_id msg ud w)))"

definition job_files :: "env \<Rightarrow> int \<Rightarrow> string \<Rightarrow> user_data \<Rightarrow> world \<Rightarrow> string set" where
  "job_files en user_id msg ud w =
     files (snd (snd (get_color_and_process en user_id msg ud w)))"

definition cancel_events :: "env \<Rightarrow> user_data \<Rightarrow> world \<Rightarrow> event list" where
  "cancel_events en ud w = new_events w (snd (snd (cancel en ud w)))"

definition cancel_files :: "env \<Rightarrow> user_data \<Rightarrow> world \<Rightarrow> string set" where
  "cancel_files en ud w = files (snd (snd (cancel en ud w)))"

text \<open>
  Readings of a trace: the graphs the transcoder was called with, the files the sink
  took, the errors written to the log, the errors sent to the chat, the paths whose
  existence was tested (only the clean-up tests one), the cuts of the source that were
  asked for, with start and length, and the parts whose processing was announced.
\<close>

fun runs :: "event list \<Rightarrow> composition list" where
  "runs [] = []"
| "runs (Run c # es) = c # runs es"
| "runs (e # es) = runs es"

fun delivered :: "event list \<Rightarrow> string list" where
  "delivered [] = []"
| "delivered (Sent p # es) = p # delivered es"
| "delivered (e # es) = delivered es"

fun errors_logged :: "event list \<Rightarrow> exn list" where
  "errors_logged [] = []"
| "errors_logged (LogError x # es) = x # errors_logged es"
| "errors_logged (e # es) = errors_logged es"

fun error_replies :: "event list \<Rightarrow> exn list" where
  "error_replies [] = []"
| "error_replies (Reply (MsgError x) # es) = x # error_replies es"
| "error_replies (e # es) = error_replies es"

fun cleanups :: "event list \<Rightarrow> string list" where
  "cleanups [] = []"
| "cleanups (Exists p # es) = p # cleanups es"
| "cleanups (e # es) = cleanups es"

fun windows :: "event list \<Rightarrow> (int \<times> int) list" where
  "windows [] = []"
| "windows (Input p ss t # es) = (ss, t) # windows es"
| "windows (e # es) = windows es"

fun announced :: "event list \<Rightarrow> int list" where
  "announced [] = []"
| "announced (Reply (MsgProcessing k n) # es) = k # announced es"
| "announced (e # es) = announced es"

text \<open>Telegram takes every message of the bot.\<close>

definition replies_ok :: "env \<Rightarrow> bool" where
  "replies_ok en = (\<forall>t m. reply_ok en t m)"

text \<open>
  What the results use of the rounding to the nearest float: it is monotone, it leaves
  the integers up to \<open>2 ^ 53\<close> as they are, and in the range of the normal floats its
  relative error is at most \<open>2 ^ -53\<close>.
\<close>

definition binary64 :: "(real \<Rightarrow> real) \<Rightarrow> bool" where
  "binary64 r =
     (mono r
      \<and> (\<forall>k::int. \<bar>k\<bar> \<le> 2 ^ 53 \<longrightarrow> r (real_of_int k) = real_of_int k)
      \<and> (\<forall>x. 1 / 2 ^ 1022 \<le> \<bar>x\<bar> \<and> \<bar>x\<bar> \<le> 2 ^ 1023 \<longrightarrow> \<bar>r x - x\<bar> \<le> \<bar>x\<bar> / 2 ^ 53))"

section \<open>Example jobs\<close>

text \<open>
  A job as the conversation leaves it before the colour is entered, the file system with
  the upload in it, and collaborators that behave in the ways the examples need.  In
  the first all succeed and the probe answers \<open>tot\<close>; of the Unicode tables it has the
  two white-space characters U+0085 and U+00A0 and the Arabic-Indic digits; its
  rounding is the identity, which gives the clip counts of the examples their values
  under every rounding with the properties above (lemma \<open>example_counts\<close>).  The
  others differ from it in one or two places: the upload cannot be deleted; the probe
  fails and the upload cannot be deleted; Telegram does not take the first message of
  the job; Telegram takes no message at all; the rounding takes \<open>10 ^ 17 - 1\<close> to \<open>10 ^ 17\<close>, as the rounding to the
  nearest float does.
\<close>

definition example_data :: "int \<Rightarrow> user_data" where
  "example_data clip =
     \<lparr>video_path = Some ''video.mp4'', title = Some ''Best of Animated'',
      channel = Some ''@Alokchauhan1100'', duration = Some clip, color = None\<rparr>"

definition no_data :: user_data where
  "no_data = \<lparr>video_path = None, title = None, channel = None, duration = None, color = None\<rparr>"

definition example_world :: world where
  "example_world = \<lparr>files = {''video.mp4''}, trace = []\<rparr>"

definition empty_world :: world where
  "empty_world = \<lparr>files = {}, trace = []\<rparr>"

definition env_all_ok :: "real \<Rightarrow> env" where
  "env_all_ok tot =
     \<lparr>probe = (\<lambda>p. Inr tot), round_double = (\<lambda>x. x),
      run_ok = (\<lambda>c. True), send_ok = (\<lambda>p. True),
      remove_ok = (\<lambda>p. True), download_ok = (\<lambda>p. True),
      reply_ok = (\<lambda>t m. True),
      uc_space = (\<lambda>ch. ch = 0x85 \<or> ch = 0xA0),
      uc_decimal = (\<lambda>ch. if 0x660 \<le> ch \<and> ch \<le> 0x669 then Some (ch - 0x660) else None)\<rparr>"

definition env_locked :: env where
  "env_locked = (env_all_ok 125)\<lparr>remove_ok := (\<lambda>p. p \<noteq> ''video.mp4'')\<rparr>"

definition env_probe_fails_locked :: env where
  "env_probe_fails_locked =
     (env_all_ok 125)\<lparr>probe := (\<lambda>p. Inl ProbeError), remove_ok := (\<lambda>p. p \<noteq> ''video.mp4'')\<rparr>"

definition env_first_reply_fails :: env where
  "env_first_reply_fails = (env_all_ok 125)\<lparr>reply_ok := (\<lambda>t m. m \<noteq> MsgAllSet)\<rparr>"

definition env_round17 :: env where
  "env_round17 =
     (env_all_ok (10 ^ 17))\<lparr>round_double := (\<lambda>x. if x = 10 ^ 17 - 1 then 10 ^ 17 else x)\<rparr>"

definition env_no_replies :: env where
  "env_no_replies = (env_all_ok 125)\<lparr>reply_ok := (\<lambda>t m. False)\<rparr>"

section \<open>Integers as text, and ranges\<close>

text \<open>
  \<^verbatim>\<open>int()\<close> reads the decimal text of every integer as that integer.
\<close>

lemma below_ten:
  assumes "k < (10::nat)"
  shows "k = 0 \<or> k = 1 \<or> k = 2 \<or> k = 3 \<or> k = 4 \<or> k = 5 \<or> k = 6 \<or> k = 7 \<or> k = 8 \<or> k = 9"
  using assms by arith

lemma digit_char_props:
  assumes "k < 10"
  shows "is_digit (digit_char k)" and "digit_val (digit_char k) = k"
    and "digit_char k \<noteq> CHR ''_''" and "\<not> is_space (digit_char k)"
  using below_ten [OF assms]
  by (auto simp: is_digit_def digit_val_def digit_char_def is_space_def)

lemma digits_acc_digit:
  "is_digit c \<Longrightarrow> digits_acc acc (c # cs) = digits_acc (acc * 10 + digit_val c) cs"
  by (auto simp: is_digit_def)

lemma digits_acc_snoc:
  assumes "\<forall>c \<in> set xs. is_digit c" and "is_digit d"
  shows "digits_acc acc (xs @ [d]) =
           map_option (\<lambda>a. a * 10 + digit_val d) (digits_acc acc xs)"
  using assms
proof (induction xs arbitrary: acc)
  case Nil
  then show ?case by (simp add: digits_acc_digit del: digits_acc.simps(2))
next
  case (Cons c xs)
  then show ?case by (simp add: digits_acc_digit del: digits_acc.simps(2))
qed

lemma str_nat_digits: "\<forall>c \<in> set (str_nat n). is_digit c"
proof (induction n rule: str_nat.induct)
  case (1 n)
  show ?case
  proof (cases "n < 10")
    case True
    then show ?thesis
      by (subst str_nat.simps) (simp add: digit_char_props)
  next
    case False
    then show ?thesis
      using 1 by (subst str_nat.simps) (simp add: digit_char_props)
  qed
qed

lemma str_nat_nonempty: "str_nat n \<noteq> []"
  by (subst str_nat.simps) simp

lemma digits_acc_str_nat: "digits_acc 0 (str_nat n) = Some n"
proof (induction n rule: str_nat.induct)
  case (1 n)
  show ?case
  proof (cases "n < 10")
    case True
    then show ?thesis
      by (subst str_nat.simps)
        (simp add: digits_acc_digit digit_char_props del: digits_acc.simps(2))
  next
    case False
    have d: "is_digit (digit_char (n mod 10))"
      by (simp add: digit_char_props)
    have "digits_acc 0 (str_nat (n div 10) @ [digit_char (n mod 10)]) =
        map_option (\<lambda>a. a * 10 + digit_val (digit_char (n mod 10))) (digits_acc 0 (str_nat (n div 10)))"
      by (rule digits_acc_snoc [OF str_nat_digits d])
    also have "\<dots> = Some (n div 10 * 10 + n mod 10)"
      using 1 False by (simp add: digit_char_props)
    finally show ?thesis
      using False by (subst str_nat.simps) simp
  qed
qed

lemma parse_digits_str_nat: "parse_digits (str_nat n) = Some n"
proof -
  obtain c cs where s: "str_nat n = c # cs"
    using str_nat_nonempty [of n] by (cases "str_nat n") auto
  then have "is_digit c"
    using str_nat_digits [of n] by simp
  then show ?thesis
    using digits_acc_str_nat [of n] by (simp add: parse_digits_def s)
qed

lemma dropWhile_none: "\<forall>c \<in> set xs. \<not> P c \<Longrightarrow> dropWhile P xs = xs"
  by (cases xs) simp_all

lemma strip_no_space:
  assumes "s \<noteq> []" and "\<not> is_space (hd s)" and "\<not> is_space (last s)"
  shows "strip s = s"
proof -
  have 1: "dropWhile is_space s = s"
    using assms(1,2) by (cases s) simp_all
  have "rev s \<noteq> []" and "\<not> is_space (hd (rev s))"
    using assms(1,3) by (simp_all add: hd_rev)
  then have 2: "dropWhile is_space (rev s) = rev s"
    by (cases "rev s") simp_all
  show ?thesis
    by (simp add: strip_def 1 2)
qed

lemma digit_not_space: "is_digit c \<Longrightarrow> \<not> is_space c"
  by (auto simp: is_digit_def is_space_def)

lemma digit_not_sign: "is_digit c \<Longrightarrow> c \<noteq> CHR ''-'' \<and> c \<noteq> CHR ''+''"
  by (auto simp: is_digit_def)

lemma long_from_string_str_int: "long_from_string (str_int d) = Some d"
proof -
  obtain c cs where s: "str_nat (nat \<bar>d\<bar>) = c # cs"
    using str_nat_nonempty [of "nat \<bar>d\<bar>"] by (cases "str_nat (nat \<bar>d\<bar>)") auto
  have dig: "\<forall>x \<in> set (c # cs). is_digit x"
    using str_nat_digits [of "nat \<bar>d\<bar>"] by (simp add: s)
  have lastd: "is_digit (last (c # cs))"
    using dig last_in_set [of "c # cs"] by blast
  have p: "parse_digits (c # cs) = Some (nat \<bar>d\<bar>)"
    using parse_digits_str_nat [of "nat \<bar>d\<bar>"] by (simp add: s)
  show ?thesis
  proof (cases "d < 0")
    case True
    then have e: "str_int d = CHR ''-'' # c # cs"
      by (simp add: str_int_def s [symmetric] abs_if)
    have m: "\<not> is_space (CHR ''-'')"
      by (simp add: is_space_def)
    have "last (CHR ''-'' # c # cs) = last (c # cs)"
      by simp
    then have "\<not> is_space (last (CHR ''-'' # c # cs))"
      using lastd by (simp only: digit_not_space not_False_eq_True)
    then have "strip (CHR ''-'' # c # cs) = CHR ''-'' # c # cs"
      using m by (intro strip_no_space) simp_all
    then show ?thesis
      using True p by (simp add: long_from_string_def e)
  next
    case False
    then have e: "str_int d = c # cs"
      by (simp add: str_int_def s [symmetric] abs_if)
    have "\<not> is_space (last (c # cs))" and "\<not> is_space c"
      using lastd dig by (simp_all only: digit_not_space not_False_eq_True list.set_intros)
    then have "strip (c # cs) = c # cs"
      by (intro strip_no_space) simp_all
    then show ?thesis
      using False p dig by (simp add: long_from_string_def e digit_not_sign)
  qed
qed

lemma nth_py_range: "j < nat n \<Longrightarrow> py_range n ! j = int j"
  by (simp add: py_range_def)

lemma length_py_range [simp]: "length (py_range n) = nat n"
  by (simp add: py_range_def)

lemma upt_3: "[0..<3] = [0, 1, 2]"
  by (simp add: upt_rec)

lemma py_range_0 [simp]: "py_range 0 = []"
  by (simp add: py_range_def)

lemma take_py_range: "m \<le> length (py_range n) \<Longrightarrow> take m (py_range n) = map int [0..<m]"
  by (simp add: py_range_def take_map)

lemma takeWhile_all: "\<forall>x. P x \<Longrightarrow> takeWhile P xs = xs"
  by (induction xs) simp_all


lemma str_int_ascii: "c \<in> set (str_int d) \<Longrightarrow> (of_char c :: nat) < 128"
proof -
  assume "c \<in> set (str_int d)"
  then have "c = CHR ''-'' \<or> is_digit c"
    using str_nat_digits by (auto simp: str_int_def split: if_splits)
  then show ?thesis
    by (auto simp: is_digit_def)
qed

lemma to_ascii_text_of:
  assumes "\<forall>c \<in> set s. (of_char c :: nat) < 128"
  shows "to_ascii space decimal (text_of s) = s"
proof -
  have "list_all (\<lambda>ch. ch < 128) (text_of s)"
    using assms by (simp add: text_of_def list_all_iff)
  moreover have "map char_of (text_of s) = s"
    by (simp add: text_of_def o_def)
  ultimately show ?thesis
    by (simp add: to_ascii_def)
qed

lemma py_int_str_int: "py_int space decimal (text_of (str_int d)) = Some d"
  by (simp add: py_int_def to_ascii_text_of str_int_ascii long_from_string_str_int)

section \<open>The loop and the job, event by event\<close>

text \<open>
  The loop body ends at line 107 whatever its index and its state, so the loop runs its
  body at most once; the \<^verbatim>\<open>try\<close> body, the \<^verbatim>\<open>except\<close> clause and the clean-up
  follow from that.
\<close>

lemma process_clip_eq:
  "process_clip en ud uid src clip n i w =
     (if reply_ok en (trace w) (MsgProcessing (i + 1) n)
      then (Inl AttributeError,
            w\<lparr>trace := trace w @ [Reply (MsgProcessing (i + 1) n), Input src (i * clip) clip]\<rparr>)
      else (Inl TelegramError, w\<lparr>trace := trace w @ [ReplyFailed (MsgProcessing (i + 1) n)]\<rparr>))"
  by (simp add: process_clip_def Let_def io_bind_def reply_text_def ffmpeg_input_def
      stream_scale_def io_raise_def emit_def)

lemma py_range_pos: "0 < n \<Longrightarrow> py_range n = 0 # map int [1..<nat n]"
  by (simp add: py_range_def upt_conv_Cons)

lemma py_range_nonpos: "n \<le> 0 \<Longrightarrow> py_range n = []"
  by (simp add: py_range_def)

lemma for_each_clips:
  "for_each (process_clip en ud uid src clip n) (py_range n) w =
     (if 0 < n then process_clip en ud uid src clip n 0 w else (Inr (), w))"
proof (cases "0 < n")
  case True
  then show ?thesis
    by (simp add: py_range_pos process_clip_eq)
next
  case False
  then show ?thesis
    by (simp add: py_range_nonpos)
qed

lemma core_processing_eq:
  assumes "video_path ud = Some src" and "duration ud = Some clip"
  shows "core_processing en ud uid w =
     (case probe en src of
        Inl e \<Rightarrow> (Inl e, emit (Probe src) w)
      | Inr tot \<Rightarrow>
          (case num_clips en tot clip of
             Inl e \<Rightarrow> (Inl e, emit (Probe src) w)
           | Inr n \<Rightarrow>
               (case reply_text en (MsgDetected tot n) (emit (Probe src) w) of
                  (Inl e, w1) \<Rightarrow> (Inl e, w1)
                | (Inr u, w1) \<Rightarrow>
                    if 0 < n then process_clip en ud uid src clip n 0 w1
                    else reply_text en MsgAllDone w1)))"
  using assms
  by (simp add: core_processing_def io_bind_def lookup_def io_return_def ffmpeg_probe_def
      io_of_def for_each_clips process_clip_eq split: sum.splits prod.splits)

lemma report_error_eq:
  "report_error en e w =
     (if reply_ok en (trace w @ [LogError e]) (MsgError e)
      then (Inr (), w\<lparr>trace := trace w @ [LogError e, Reply (MsgError e)]\<rparr>)
      else (Inl TelegramError, w\<lparr>trace := trace w @ [LogError e, ReplyFailed (MsgError e)]\<rparr>))"
  by (simp add: report_error_def io_bind_def logger_error_def reply_text_def emit_def)

lemma session_cleanup_eq:
  assumes "video_path ud = Some src"
  shows "session_cleanup en ud w =
     (if src \<in> files w
      then (if remove_ok en src
            then (Inr (), \<lparr>files = files w - {src}, trace = trace w @ [Exists src, Removed src]\<rparr>)
            else (Inl (OSError src), \<lparr>files = files w, trace = trace w @ [Exists src, RemoveFailed src]\<rparr>))
      else (Inr (), \<lparr>files = files w, trace = trace w @ [Exists src]\<rparr>))"
  using assms
  by (simp add: session_cleanup_def io_bind_def lookup_def io_return_def os_path_exists_def
      os_remove_def emit_def)

lemma runs_append [simp]: "runs (a @ b) = runs a @ runs b"
  by (induction a rule: runs.induct) simp_all

lemma delivered_append [simp]: "delivered (a @ b) = delivered a @ delivered b"
  by (induction a rule: delivered.induct) simp_all

lemma errors_logged_append [simp]: "errors_logged (a @ b) = errors_logged a @ errors_logged b"
  by (induction a rule: errors_logged.induct) simp_all

lemma error_replies_append [simp]: "error_replies (a @ b) = error_replies a @ error_replies b"
  by (induction a rule: error_replies.induct) simp_all

lemma cleanups_append [simp]: "cleanups (a @ b) = cleanups a @ cleanups b"
  by (induction a rule: cleanups.induct) simp_all

lemma windows_append [simp]: "windows (a @ b) = windows a @ windows b"
  by (induction a rule: windows.induct) simp_all

lemma announced_append [simp]: "announced (a @ b) = announced a @ announced b"
  by (induction a rule: announced.induct) simp_all

lemma core_processing_effect:
  "files (snd (core_processing en ud uid w)) = files w
   \<and> (\<exists>evs. trace (snd (core_processing en ud uid w)) = trace w @ evs
        \<and> runs evs = [] \<and> delivered evs = [] \<and> errors_logged evs = []
        \<and> error_replies evs = [] \<and> cleanups evs = []
        \<and> length (announced evs) \<le> 1 \<and> length (windows evs) \<le> 1)"
proof (cases "video_path ud")
  case None
  then show ?thesis
    by (simp add: core_processing_def io_bind_def lookup_def io_raise_def)
next
  case (Some src)
  note v = this
  show ?thesis
  proof (cases "duration ud")
    case None
    then show ?thesis
      using v by (simp add: core_processing_def io_bind_def lookup_def io_raise_def io_return_def)
  next
    case (Some clip)
    show ?thesis
      by (simp add: core_processing_eq [OF v Some] process_clip_eq reply_text_def emit_def
          split: sum.splits)
  qed
qed

lemma process_job_shape:
  assumes "video_path ud = Some src"
  shows "\<exists>body rep.
           trace (snd (process_job en ud uid w)) =
             trace w @ body @ rep @ Exists src #
               (if src \<in> files w then (if remove_ok en src then [Removed src] else [RemoveFailed src])
                else [])
         \<and> runs body = [] \<and> delivered body = [] \<and> errors_logged body = []
         \<and> error_replies body = [] \<and> cleanups body = []
         \<and> length (announced body) \<le> 1 \<and> length (windows body) \<le> 1
         \<and> (rep = [] \<or> (\<exists>e. rep = [LogError e, Reply (MsgError e)])
              \<or> (\<exists>e. rep = [LogError e, ReplyFailed (MsgError e)]))
         \<and> files (snd (process_job en ud uid w)) =
              (if remove_ok en src then files w - {src} else files w)
         \<and> (src \<in> files w \<and> \<not> remove_ok en src \<longrightarrow>
              fst (process_job en ud uid w) = Inl (OSError src))"
proof -
  obtain r1 w1 where core: "core_processing en ud uid w = (r1, w1)"
    by (cases "core_processing en ud uid w")
  from core_processing_effect [of en ud uid w] core
  obtain body where f1: "files w1 = files w" and t1: "trace w1 = trace w @ body"
    and q: "runs body = []" "delivered body = []" "errors_logged body = []"
      "error_replies body = []" "cleanups body = []"
      "length (announced body) \<le> 1" "length (windows body) \<le> 1"
    by auto
  obtain r2 w2 where rep: "(case r1 of Inl e \<Rightarrow> report_error en e w1 | Inr u \<Rightarrow> (Inr u, w1)) = (r2, w2)"
    by (cases "case r1 of Inl e \<Rightarrow> report_error en e w1 | Inr u \<Rightarrow> (Inr u, w1)")
  then obtain rep where f2: "files w2 = files w1" and t2: "trace w2 = trace w1 @ rep"
    and rp: "rep = [] \<or> (\<exists>e. rep = [LogError e, Reply (MsgError e)])
              \<or> (\<exists>e. rep = [LogError e, ReplyFailed (MsgError e)])"
    by (cases r1) (auto simp: report_error_eq split: if_splits)
  have job: "process_job en ud uid w =
      (case session_cleanup en ud w2 of (Inl e', w3) \<Rightarrow> (Inl e', w3) | (Inr u, w3) \<Rightarrow> (r2, w3))"
    using core rep by (simp add: process_job_def try_except_finally_def)
  have "trace (snd (process_job en ud uid w)) =
             trace w @ body @ rep @ Exists src #
               (if src \<in> files w then (if remove_ok en src then [Removed src] else [RemoveFailed src])
                else [])"
    and "files (snd (process_job en ud uid w)) =
              (if remove_ok en src then files w - {src} else files w)"
    and "src \<in> files w \<and> \<not> remove_ok en src \<longrightarrow>
              fst (process_job en ud uid w) = Inl (OSError src)"
    using f1 f2 t1 t2 by (auto simp: job session_cleanup_eq [OF assms])
  with q rp show ?thesis
    by blast
qed

lemma emit_simps [simp]: "trace (emit e w) = trace w @ [e]" "files (emit e w) = files w"
  by (simp_all add: emit_def)

lemma job_first_reply_fails:
  assumes "\<not> reply_ok en (trace w) MsgAllSet"
  shows "get_color_and_process en uid col ud w =
           (Inl TelegramError, ud\<lparr>color := Some col\<rparr>, emit (ReplyFailed MsgAllSet) w)"
  using assms
  by (simp add: get_color_and_process_def Let_def returning_def io_bind_def reply_text_def)

lemma job_after_first_reply:
  assumes "reply_ok en (trace w) MsgAllSet"
  shows "snd (snd (get_color_and_process en uid col ud w)) =
           snd (process_job en (ud\<lparr>color := Some col\<rparr>) uid (emit (Reply MsgAllSet) w))"
    and "fst (get_color_and_process en uid col ud w) =
           (case fst (process_job en (ud\<lparr>color := Some col\<rparr>) uid (emit (Reply MsgAllSet) w)) of
              Inl e \<Rightarrow> Inl e | Inr u \<Rightarrow> Inr END)"
  using assms
  by (simp_all add: get_color_and_process_def Let_def returning_def io_bind_def reply_text_def
      split: prod.splits sum.splits)

lemma job_shape:
  assumes "video_path ud = Some src" and "reply_ok en (trace w) MsgAllSet"
  shows "\<exists>body rep.
           job_events en uid col ud w =
             Reply MsgAllSet # body @ rep @ Exists src #
               (if src \<in> files w then (if remove_ok en src then [Removed src] else [RemoveFailed src])
                else [])
         \<and> runs body = [] \<and> delivered body = [] \<and> errors_logged body = []
         \<and> error_replies body = [] \<and> cleanups body = []
         \<and> length (announced body) \<le> 1 \<and> length (windows body) \<le> 1
         \<and> (rep = [] \<or> (\<exists>e. rep = [LogError e, Reply (MsgError e)])
              \<or> (\<exists>e. rep = [LogError e, ReplyFailed (MsgError e)]))
         \<and> job_files en uid col ud w = (if remove_ok en src then files w - {src} else files w)
         \<and> (src \<in> files w \<and> \<not> remove_ok en src \<longrightarrow>
              fst (get_color_and_process en uid col ud w) = Inl (OSError src))"
proof -
  let ?ud = "ud\<lparr>color := Some col\<rparr>"
  let ?w0 = "emit (Reply MsgAllSet) w"
  have v: "video_path ?ud = Some src"
    using assms(1) by simp
  note a = job_after_first_reply [OF assms(2), of uid col ud]
  from process_job_shape [OF v, of en uid ?w0]
  obtain body rep where
    t: "trace (snd (process_job en ?ud uid ?w0)) =
             trace ?w0 @ body @ rep @ Exists src #
               (if src \<in> files ?w0 then (if remove_ok en src then [Removed src] else [RemoveFailed src])
                else [])"
    and q: "runs body = []" "delivered body = []" "errors_logged body = []"
      "error_replies body = []" "cleanups body = []"
      "length (announced body) \<le> 1" "length (windows body) \<le> 1"
    and rp: "rep = [] \<or> (\<exists>e. rep = [LogError e, Reply (MsgError e)])
              \<or> (\<exists>e. rep = [LogError e, ReplyFailed (MsgError e)])"
    and f: "files (snd (process_job en ?ud uid ?w0)) =
              (if remove_ok en src then files ?w0 - {src} else files ?w0)"
    and x: "src \<in> files ?w0 \<and> \<not> remove_ok en src \<longrightarrow>
              fst (process_job en ?ud uid ?w0) = Inl (OSError src)"
    by blast
  have ev: "job_events en uid col ud w =
             Reply MsgAllSet # body @ rep @ Exists src #
               (if src \<in> files w then (if remove_ok en src then [Removed src] else [RemoveFailed src])
                else [])"
    by (simp add: job_events_def new_events_def a(1) t)
  have fl: "job_files en uid col ud w = (if remove_ok en src then files w - {src} else files w)"
    by (simp add: job_files_def a(1) f)
  have ex: "src \<in> files w \<and> \<not> remove_ok en src \<longrightarrow>
              fst (get_color_and_process en uid col ud w) = Inl (OSError src)"
    using x by (simp add: a(2))
  from ev q rp fl ex show ?thesis
    by blast
qed

lemma cancel_eq:
  assumes "video_path ud = Some src"
  shows "cancel_events en ud w =
           LogInfo # Exists src #
           (if src \<in> files w
            then (if remove_ok en src
                  then [Removed src,
                        if reply_ok en (trace w @ [LogInfo, Exists src, Removed src]) MsgCancelled
                        then Reply MsgCancelled else ReplyFailed MsgCancelled]
                  else [RemoveFailed src])
            else [if reply_ok en (trace w @ [LogInfo, Exists src]) MsgCancelled
                  then Reply MsgCancelled else ReplyFailed MsgCancelled])"
    and "cancel_files en ud w = (if remove_ok en src then files w - {src} else files w)"
    and "src \<in> files w \<and> \<not> remove_ok en src \<longrightarrow> fst (cancel en ud w) = Inl (OSError src)"
  using assms
  by (simp_all add: cancel_events_def cancel_files_def new_events_def cancel_def returning_def
      io_bind_def logger_info_def os_path_exists_def os_remove_def io_return_def reply_text_def
      emit_def)

lemma cancel_no_upload:
  assumes "video_path ud = None"
  shows "cancel_events en ud w =
           [LogInfo, if reply_ok en (trace w @ [LogInfo]) MsgCancelled
                     then Reply MsgCancelled else ReplyFailed MsgCancelled]"
    and "cancel_files en ud w = files w"
  using assms
  by (simp_all add: cancel_events_def cancel_files_def new_events_def cancel_def returning_def
      io_bind_def logger_info_def io_return_def reply_text_def emit_def)

lemma replies_okD [simp]: "replies_ok en \<Longrightarrow> reply_ok en t m"
  by (simp add: replies_ok_def)

lemma process_job_replies_ok:
  assumes "video_path ud = Some src" and "duration ud = Some clip" and "replies_ok en"
  shows "trace (snd (process_job en ud uid w)) =
           trace w @ Probe src #
           (case probe en src of
              Inl e \<Rightarrow> [LogError e, Reply (MsgError e)]
            | Inr tot \<Rightarrow>
                (case num_clips en tot clip of
                   Inl e \<Rightarrow> [LogError e, Reply (MsgError e)]
                 | Inr n \<Rightarrow>
                     Reply (MsgDetected tot n) #
                     (if 0 < n
                      then [Reply (MsgProcessing 1 n), Input src 0 clip,
                            LogError AttributeError, Reply (MsgError AttributeError)]
                      else [Reply MsgAllDone])))
           @ Exists src #
             (if src \<in> files w then (if remove_ok en src then [Removed src] else [RemoveFailed src])
              else [])"
    and "fst (process_job en ud uid w) =
           (if src \<in> files w \<and> \<not> remove_ok en src then Inl (OSError src) else Inr ())"
  using assms
  by (simp_all add: process_job_def try_except_finally_def core_processing_eq process_clip_eq
      report_error_eq session_cleanup_eq reply_text_def split: sum.splits)

lemma job_replies_ok:
  assumes "video_path ud = Some src" and "duration ud = Some clip" and "replies_ok en"
  shows "job_events en uid col ud w =
           Reply MsgAllSet # Probe src #
           (case probe en src of
              Inl e \<Rightarrow> [LogError e, Reply (MsgError e)]
            | Inr tot \<Rightarrow>
                (case num_clips en tot clip of
                   Inl e \<Rightarrow> [LogError e, Reply (MsgError e)]
                 | Inr n \<Rightarrow>
                     Reply (MsgDetected tot n) #
                     (if 0 < n
                      then [Reply (MsgProcessing 1 n), Input src 0 clip,
                            LogError AttributeError, Reply (MsgError AttributeError)]
                      else [Reply MsgAllDone])))
           @ Exists src #
             (if src \<in> files w then (if remove_ok en src then [Removed src] else [RemoveFailed src])
              else [])"
    and "fst (get_color_and_process en uid col ud w) =
           (if src \<in> files w \<and> \<not> remove_ok en src then Inl (OSError src) else Inr END)"
proof -
  let ?ud = "ud\<lparr>color := Some col\<rparr>"
  have k: "video_path ?ud = Some src" "duration ?ud = Some clip"
    using assms(1,2) by simp_all
  have r: "reply_ok en (trace w) MsgAllSet"
    using assms(3) by simp
  note a = job_after_first_reply [OF r, of uid col ud]
  note p = process_job_replies_ok [OF k assms(3), of uid "emit (Reply MsgAllSet) w"]
  show "job_events en uid col ud w =
           Reply MsgAllSet # Probe src #
           (case probe en src of
              Inl e \<Rightarrow> [LogError e, Reply (MsgError e)]
            | Inr tot \<Rightarrow>
                (case num_clips en tot clip of
                   Inl e \<Rightarrow> [LogError e, Reply (MsgError e)]
                 | Inr n \<Rightarrow>
                     Reply (MsgDetected tot n) #
                     (if 0 < n
                      then [Reply (MsgProcessing 1 n), Input src 0 clip,
                            LogError AttributeError, Reply (MsgError AttributeError)]
                      else [Reply MsgAllDone])))
           @ Exists src #
             (if src \<in> files w then (if remove_ok en src then [Removed src] else [RemoveFailed src])
              else [])"
    by (simp add: job_events_def new_events_def a(1) p(1))
  show "fst (get_color_and_process en uid col ud w) =
           (if src \<in> files w \<and> \<not> remove_ok en src then Inl (OSError src) else Inr END)"
    by (simp add: a(2) p(2))
qed

lemma binary64_mono: "binary64 r \<Longrightarrow> x \<le> y \<Longrightarrow> r x \<le> r y"
  by (simp add: binary64_def mono_def)

lemma binary64_int: "binary64 r \<Longrightarrow> \<bar>k\<bar> \<le> 2 ^ 53 \<Longrightarrow> r (real_of_int k) = real_of_int k"
  by (simp add: binary64_def)


lemma binary64_id: "binary64 (\<lambda>x. x)"
  by (simp add: binary64_def mono_def)

lemma nonpositive_count:
  assumes "binary64 r" and "d < 0" and "0 \<le> tot"
  shows "\<lceil>r (tot / r (real_of_int d))\<rceil> \<le> 0"
proof -
  have "r (real_of_int d) \<le> r (real_of_int (- 1))"
    using assms(2) by (intro binary64_mono [OF assms(1)]) simp
  also have "r (real_of_int (- 1)) = real_of_int (- 1)"
    by (rule binary64_int [OF assms(1)]) simp
  finally have neg: "r (real_of_int d) < 0"
    by simp
  have "tot / r (real_of_int d) \<le> 0"
    using neg assms(3) by (simp add: divide_nonneg_neg)
  then have "r (tot / r (real_of_int d)) \<le> r (real_of_int 0)"
    by (intro binary64_mono [OF assms(1)]) simp
  also have "r (real_of_int 0) = real_of_int 0"
    by (rule binary64_int [OF assms(1)]) simp
  finally show ?thesis
    by (simp add: ceiling_le_iff)
qed




section \<open>The example jobs, evaluated\<close>

lemma env_all_ok_simps [simp]:
  "probe (env_all_ok tot) p = Inr tot" "round_double (env_all_ok tot) x = x"
  "remove_ok (env_all_ok tot) p" "replies_ok (env_all_ok tot)"
  "binary64 (round_double (env_all_ok tot))"
  by (simp_all add: env_all_ok_def replies_ok_def binary64_def mono_def)

lemma example_data_simps [simp]:
  "video_path (example_data clip) = Some ''video.mp4''"
  "duration (example_data clip) = Some clip"
  "title (example_data clip) = Some ''Best of Animated''"
  "channel (example_data clip) = Some ''@Alokchauhan1100''"
  by (simp_all add: example_data_def)

lemma example_world_simps [simp]:
  "files example_world = {''video.mp4''}" "trace example_world = []"
  "files empty_world = {}" "trace empty_world = []"
  by (simp_all add: example_world_def empty_world_def)

lemmas run_defs = get_color_and_process_def returning_def process_job_def try_except_finally_def
  core_processing_def session_cleanup_def report_error_def process_clip_def
  io_bind_def io_return_def io_raise_def io_of_def lookup_def reply_text_def logger_error_def
  ffmpeg_probe_def ffmpeg_input_def stream_scale_def stream_video_def
  ffmpeg_run_def send_video_def os_remove_def os_path_exists_def emit_def
  num_clips_def py_range_def upt_3 Let_def
  output_filename_def str_int_def str_nat.simps digit_char_def



lemmas int_defs = py_int_def to_ascii_def long_from_string_def strip_def is_space_def
  parse_digits_def is_digit_def digit_val_def text_of_def char_of_eq_iff

section \<open>The claims\<close>


subsection \<open>C3: order of delivery and the first failure\<close>


subsection \<open>C4: the clip file after its iteration\<close>


subsection \<open>C5: the clean-up runs once\<close>

text \<open>
  C5, as stated, fails on the code in three respects.  The first reply of the job
  (lines 80 to 83) is outside the \<^verbatim>\<open>try\<close>: when Telegram does not take it, the
  handler ends with that exception, no clean-up runs and the upload stays.  A
  cancellation before any upload runs no clean-up.  And when the deletion of the upload
  fails, the file stays and the handler ends with that exception.
\<close>

theorem cleanup_skipped_counterexample:
  "fst (get_color_and_process env_first_reply_fails 7 ''orange'' (example_data 60) example_world)
     = Inl TelegramError
   \<and> cleanups (job_events env_first_reply_fails 7 ''orange'' (example_data 60) example_world) = []
   \<and> ''video.mp4'' \<in> job_files env_first_reply_fails 7 ''orange'' (example_data 60) example_world
   \<and> cleanups (cancel_events (env_all_ok 125) no_data empty_world) = []
   \<and> ''video.mp4'' \<in> job_files env_locked 7 ''orange'' (example_data 60) example_world
   \<and> fst (get_color_and_process env_locked 7 ''orange'' (example_data 60) example_world)
       = Inl (OSError ''video.mp4'')"
proof -
  have a: "fst (get_color_and_process env_first_reply_fails 7 ''orange'' (example_data 60) example_world)
     = Inl TelegramError
   \<and> cleanups (job_events env_first_reply_fails 7 ''orange'' (example_data 60) example_world) = []
   \<and> ''video.mp4'' \<in> job_files env_first_reply_fails 7 ''orange'' (example_data 60) example_world"
    by (simp add: job_events_def job_files_def new_events_def example_data_def example_world_def
        env_first_reply_fails_def env_all_ok_def run_defs)
  have b: "cleanups (cancel_events (env_all_ok 125) no_data empty_world) = []"
    by (simp add: cancel_events_def new_events_def cancel_def returning_def io_bind_def
        logger_info_def io_return_def reply_text_def emit_def no_data_def empty_world_def
        env_all_ok_def)
  have c: "''video.mp4'' \<in> job_files env_locked 7 ''orange'' (example_data 60) example_world
   \<and> fst (get_color_and_process env_locked 7 ''orange'' (example_data 60) example_world)
       = Inl (OSError ''video.mp4'')"
    by (simp add: job_files_def example_data_def example_world_def env_locked_def env_all_ok_def
        run_defs)
  show ?thesis
    using a b c by simp
qed

text \<open>
  C5, amended.  Take a job with an upload.  When its first reply is sent, then whatever
  the probe, the planning and the loop do, the clean-up runs exactly once, as the last
  step of the handler: one existence test of the source path, followed by at most its
  deletion; the source file is gone at the end if the file system lets it be deleted,
  and if the file is there and cannot be deleted it stays and the handler ends with that
  exception.  When the first reply is not sent, no clean-up runs, the files stay as they
  are and the handler ends with that exception.  A cancellation with an upload runs the
  clean-up exactly once, after the log line and before the reply: the same existence
  test and deletion, with the same two outcomes for the file.  A cancellation without an
  upload runs no clean-up and changes no file.
\<close>

theorem cleanup_once:
  assumes "video_path ud = Some src"
  shows "(reply_ok en (trace w) MsgAllSet \<longrightarrow>
            cleanups (job_events en uid col ud w) = [src]
          \<and> (\<exists>before rest. job_events en uid col ud w = before @ Exists src # rest
                \<and> (rest = [] \<or> rest = [Removed src] \<or> rest = [RemoveFailed src]))
          \<and> (remove_ok en src \<longrightarrow> src \<notin> job_files en uid col ud w)
          \<and> (src \<in> files w \<and> \<not> remove_ok en src \<longrightarrow>
                src \<in> job_files en uid col ud w
              \<and> fst (get_color_and_process en uid col ud w) = Inl (OSError src)))
       \<and> (\<not> reply_ok en (trace w) MsgAllSet \<longrightarrow>
            cleanups (job_events en uid col ud w) = []
          \<and> job_files en uid col ud w = files w
          \<and> fst (get_color_and_process en uid col ud w) = Inl TelegramError)
       \<and> cleanups (cancel_events en ud w) = [src]
       \<and> (\<exists>rest. cancel_events en ud w = LogInfo # Exists src # rest
             \<and> (rest = [Reply MsgCancelled] \<or> rest = [ReplyFailed MsgCancelled]
                  \<or> rest = [Removed src, Reply MsgCancelled]
                  \<or> rest = [Removed src, ReplyFailed MsgCancelled]
                  \<or> rest = [RemoveFailed src]))
       \<and> (remove_ok en src \<longrightarrow> src \<notin> cancel_files en ud w)
       \<and> (src \<in> files w \<and> \<not> remove_ok en src \<longrightarrow>
             src \<in> cancel_files en ud w \<and> fst (cancel en ud w) = Inl (OSError src))
       \<and> (video_path ud' = None \<longrightarrow>
             cleanups (cancel_events en ud' w) = [] \<and> cancel_files en ud' w = files w)"
proof -
  have A: "reply_ok en (trace w) MsgAllSet \<longrightarrow>
            cleanups (job_events en uid col ud w) = [src]
          \<and> (\<exists>before rest. job_events en uid col ud w = before @ Exists src # rest
                \<and> (rest = [] \<or> rest = [Removed src] \<or> rest = [RemoveFailed src]))
          \<and> (remove_ok en src \<longrightarrow> src \<notin> job_files en uid col ud w)
          \<and> (src \<in> files w \<and> \<not> remove_ok en src \<longrightarrow>
                src \<in> job_files en uid col ud w
              \<and> fst (get_color_and_process en uid col ud w) = Inl (OSError src))"
  proof
    assume r: "reply_ok en (trace w) MsgAllSet"
    let ?rest = "if src \<in> files w then (if remove_ok en src then [Removed src] else [RemoveFailed src])
                else []"
    from job_shape [OF assms r, of uid col]
    obtain body rep where ev: "job_events en uid col ud w =
             Reply MsgAllSet # body @ rep @ Exists src # ?rest"
      and q: "cleanups body = []"
      and rp: "rep = [] \<or> (\<exists>e. rep = [LogError e, Reply (MsgError e)])
              \<or> (\<exists>e. rep = [LogError e, ReplyFailed (MsgError e)])"
      and f: "job_files en uid col ud w = (if remove_ok en src then files w - {src} else files w)"
      and x: "src \<in> files w \<and> \<not> remove_ok en src \<longrightarrow>
              fst (get_color_and_process en uid col ud w) = Inl (OSError src)"
      by blast
    from rp have cr: "cleanups rep = []"
      by auto
    have 1: "cleanups (job_events en uid col ud w) = [src]"
      using q cr by (simp add: ev)
    have "job_events en uid col ud w = (Reply MsgAllSet # body @ rep) @ Exists src # ?rest"
      by (simp add: ev)
    moreover have "?rest = [] \<or> ?rest = [Removed src] \<or> ?rest = [RemoveFailed src]"
      by simp
    ultimately have 2: "\<exists>before rest. job_events en uid col ud w = before @ Exists src # rest
                \<and> (rest = [] \<or> rest = [Removed src] \<or> rest = [RemoveFailed src])"
      by blast
    have 3: "remove_ok en src \<longrightarrow> src \<notin> job_files en uid col ud w"
      by (simp add: f)
    have 4: "src \<in> files w \<and> \<not> remove_ok en src \<longrightarrow>
                src \<in> job_files en uid col ud w
              \<and> fst (get_color_and_process en uid col ud w) = Inl (OSError src)"
      using x by (simp add: f)
    from 1 2 3 4 show "cleanups (job_events en uid col ud w) = [src]
          \<and> (\<exists>before rest. job_events en uid col ud w = before @ Exists src # rest
                \<and> (rest = [] \<or> rest = [Removed src] \<or> rest = [RemoveFailed src]))
          \<and> (remove_ok en src \<longrightarrow> src \<notin> job_files en uid col ud w)
          \<and> (src \<in> files w \<and> \<not> remove_ok en src \<longrightarrow>
                src \<in> job_files en uid col ud w
              \<and> fst (get_color_and_process en uid col ud w) = Inl (OSError src))"
      by blast
  qed
  have B: "\<not> reply_ok en (trace w) MsgAllSet \<longrightarrow>
            cleanups (job_events en uid col ud w) = []
          \<and> job_files en uid col ud w = files w
          \<and> fst (get_color_and_process en uid col ud w) = Inl TelegramError"
    by (simp add: job_events_def job_files_def new_events_def job_first_reply_fails)
  note c = cancel_eq [OF assms, where en = en and w = w]
  have C: "cleanups (cancel_events en ud w) = [src]"
    by (simp add: c(1))
  have D: "\<exists>rest. cancel_events en ud w = LogInfo # Exists src # rest
             \<and> (rest = [Reply MsgCancelled] \<or> rest = [ReplyFailed MsgCancelled]
                  \<or> rest = [Removed src, Reply MsgCancelled]
                  \<or> rest = [Removed src, ReplyFailed MsgCancelled]
                  \<or> rest = [RemoveFailed src])"
    by (simp add: c(1))
  have E: "remove_ok en src \<longrightarrow> src \<notin> cancel_files en ud w"
    by (simp add: c(2))
  have F: "src \<in> files w \<and> \<not> remove_ok en src \<longrightarrow>
             src \<in> cancel_files en ud w \<and> fst (cancel en ud w) = Inl (OSError src)"
    using c(3) by (simp add: c(2))
  have G: "video_path ud' = None \<longrightarrow>
             cleanups (cancel_events en ud' w) = [] \<and> cancel_files en ud' w = files w"
    by (simp add: cancel_no_upload)
  show ?thesis
    using A B C D E F G by blast
qed

text \<open>
  A job and a cancellation in which everything succeeds, a cancellation without an
  upload, a job and a cancellation with an upload that cannot be deleted, and a job
  whose first reply is not sent.
\<close>

theorem cleanup_once_witness:
  "reply_ok (env_all_ok 125) (trace example_world) MsgAllSet
   \<and> cleanups (job_events (env_all_ok 125) 7 ''orange'' (example_data 60) example_world)
       = [''video.mp4'']
   \<and> ''video.mp4'' \<notin> job_files (env_all_ok 125) 7 ''orange'' (example_data 60) example_world
   \<and> cleanups (cancel_events (env_all_ok 125) (example_data 60) example_world) = [''video.mp4'']
   \<and> ''video.mp4'' \<notin> cancel_files (env_all_ok 125) (example_data 60) example_world
   \<and> cleanups (cancel_events (env_all_ok 125) no_data example_world) = []
   \<and> cancel_files (env_all_ok 125) no_data example_world = files example_world
   \<and> ''video.mp4'' \<in> job_files env_locked 7 ''orange'' (example_data 60) example_world
   \<and> ''video.mp4'' \<in> cancel_files env_locked (example_data 60) example_world
   \<and> fst (cancel env_locked (example_data 60) example_world) = Inl (OSError ''video.mp4'')
   \<and> cleanups (job_events env_first_reply_fails 7 ''orange'' (example_data 60) example_world) = []
   \<and> job_files env_first_reply_fails 7 ''orange'' (example_data 60) example_world
       = files example_world
   \<and> fst (get_color_and_process env_first_reply_fails 7 ''orange'' (example_data 60) example_world)
       = Inl TelegramError"
proof -
  have r: "reply_ok (env_all_ok 125) (trace example_world) MsgAllSet"
    by (simp add: env_all_ok_def)
  have rl: "reply_ok env_locked (trace example_world) MsgAllSet"
    by (simp add: env_locked_def env_all_ok_def)
  have nr: "\<not> reply_ok env_first_reply_fails (trace example_world) MsgAllSet"
    by (simp add: env_first_reply_fails_def env_all_ok_def)
  have rm: "remove_ok (env_all_ok 125) ''video.mp4''"
    by simp
  have locked: "\<not> remove_ok env_locked ''video.mp4''"
    by (simp add: env_locked_def env_all_ok_def)
  have yes: "''video.mp4'' \<in> files example_world"
    by simp
  have nd: "video_path no_data = None"
    by (simp add: no_data_def)
  note T1 = cleanup_once [OF example_data_simps(1), where en = "env_all_ok 125"
      and w = example_world and uid = 7 and col = "''orange''" and clip1 = 60 and ud' = no_data]
  note T2 = cleanup_once [OF example_data_simps(1), where en = env_locked
      and w = example_world and uid = 7 and col = "''orange''" and clip1 = 60 and ud' = no_data]
  note T3 = cleanup_once [OF example_data_simps(1), where en = env_first_reply_fails
      and w = example_world and uid = 7 and col = "''orange''" and clip1 = 60 and ud' = no_data]
  have a: "cleanups (job_events (env_all_ok 125) 7 ''orange'' (example_data 60) example_world)
       = [''video.mp4'']
     \<and> ''video.mp4'' \<notin> job_files (env_all_ok 125) 7 ''orange'' (example_data 60) example_world"
    using T1 [THEN conjunct1, THEN mp, OF r] rm by blast
  have b: "cleanups (cancel_events (env_all_ok 125) (example_data 60) example_world) = [''video.mp4'']
     \<and> ''video.mp4'' \<notin> cancel_files (env_all_ok 125) (example_data 60) example_world
     \<and> cleanups (cancel_events (env_all_ok 125) no_data example_world) = []
     \<and> cancel_files (env_all_ok 125) no_data example_world = files example_world"
    using T1 [THEN conjunct2, THEN conjunct2] rm nd by blast
  have c: "''video.mp4'' \<in> job_files env_locked 7 ''orange'' (example_data 60) example_world"
    using T2 [THEN conjunct1, THEN mp, OF rl] yes locked by blast
  have d: "''video.mp4'' \<in> cancel_files env_locked (example_data 60) example_world
     \<and> fst (cancel env_locked (example_data 60) example_world) = Inl (OSError ''video.mp4'')"
    using T2 [THEN conjunct2, THEN conjunct2] yes locked by blast
  have e: "cleanups (job_events env_first_reply_fails 7 ''orange'' (example_data 60) example_world) = []
     \<and> job_files env_first_reply_fails 7 ''orange'' (example_data 60) example_world
       = files example_world
     \<and> fst (get_color_and_process env_first_reply_fails 7 ''orange'' (example_data 60) example_world)
       = Inl TelegramError"
    using T3 [THEN conjunct2, THEN conjunct1, THEN mp, OF nr] .
  show ?thesis
    using r a b c d e by (simp only: simp_thms)
qed

subsection \<open>C6: what is checked about the duration\<close>

text \<open>
  C6, as stated, fails on the code.  The duration prompt accepts \<open>-5\<close> and \<open>0\<close> and
  stores them.  The planning step computes a clip count, without any error, for a
  negative clip length and for a source of duration 0; the job with the clip length -5
  logs no error and ends with the all-done message.
\<close>

theorem validation_counterexample:
  "fst (get_duration (env_all_ok 125) (text_of ''-5'') (example_data 60) example_world)
     = Inr GET_COLOR
   \<and> duration (fst (snd (get_duration (env_all_ok 125) (text_of ''-5'') (example_data 60)
        example_world))) = Some (- 5)
   \<and> fst (get_duration (env_all_ok 125) (text_of ''0'') (example_data 60) example_world)
     = Inr GET_COLOR
   \<and> duration (fst (snd (get_duration (env_all_ok 125) (text_of ''0'') (example_data 60)
        example_world))) = Some 0
   \<and> num_clips (env_all_ok 125) 125 (- 5) = Inr (- 25)
   \<and> num_clips (env_all_ok 0) 0 60 = Inr 0
   \<and> job_events (env_all_ok 125) 7 ''orange'' (example_data (- 5)) example_world =
       [Reply MsgAllSet, Probe ''video.mp4'', Reply (MsgDetected 125 (- 25)), Reply MsgAllDone,
        Exists ''video.mp4'', Removed ''video.mp4'']"
proof -
  have a: "py_int (uc_space (env_all_ok 125)) (uc_decimal (env_all_ok 125)) (text_of ''-5'')
      = Some (- 5)"
    "py_int (uc_space (env_all_ok 125)) (uc_decimal (env_all_ok 125)) (text_of ''0'') = Some 0"
    by (simp_all add: int_defs env_all_ok_def)
  have r: "reply_ok (env_all_ok 125) t m" for t m
    by (simp add: env_all_ok_def)
  have n: "num_clips (env_all_ok 125) 125 (- 5) = Inr (- 25)" "num_clips (env_all_ok 0) 0 60 = Inr 0"
    by (simp_all add: num_clips_def)
  have ev: "job_events (env_all_ok 125) 7 ''orange'' (example_data (- 5)) example_world =
       [Reply MsgAllSet, Probe ''video.mp4'', Reply (MsgDetected 125 (- 25)), Reply MsgAllDone,
        Exists ''video.mp4'', Removed ''video.mp4'']"
    by (simp add: job_replies_ok [OF example_data_simps(1,2)] n)
  show ?thesis
    using n ev by (simp add: get_duration_def a returning_def reply_text_def r)
qed

text \<open>
  C6, amended.  The only test on the duration is that \<^verbatim>\<open>int()\<close> reads the text.  A text
  it rejects is answered with the request to enter a number: when that reply is sent the
  state stays \<open>GET_DURATION\<close>, and nothing is stored in any case.  A text it reads as \<open>d\<close>
  is stored, whatever the sign of \<open>d\<close>, and when the next question is sent the
  conversation goes on to the colour; the decimal text of every integer is read as that
  integer.  The planning step has no check of its own.  It fails with the division by
  zero exactly when the clip length is 0 and with the overflow of the conversion to a
  float exactly when the magnitude of the clip length is \<open>2 ^ 1024 - 2 ^ 970\<close> or more;
  for every other clip length it gives the ceiling of the float quotient, whatever the
  signs.  When it fails, and Telegram takes the messages, the job announces no part,
  asks for no cut, and logs and sends that one error.
\<close>

theorem duration_validation:
  "(py_int (uc_space en) (uc_decimal en) msg = None \<longrightarrow>
      fst (snd (get_duration en msg ud w)) = ud
    \<and> (reply_ok en (trace w) MsgInvalidNumber \<longrightarrow>
          get_duration en msg ud w = (Inr GET_DURATION, ud, emit (Reply MsgInvalidNumber) w))
    \<and> (\<not> reply_ok en (trace w) MsgInvalidNumber \<longrightarrow>
          fst (get_duration en msg ud w) = Inl TelegramError))
   \<and> (py_int (uc_space en) (uc_decimal en) msg = Some d \<longrightarrow>
      fst (snd (get_duration en msg ud w)) = ud\<lparr>duration := Some d\<rparr>
    \<and> (reply_ok en (trace w) MsgAskColor \<longrightarrow>
          get_duration en msg ud w
            = (Inr GET_COLOR, ud\<lparr>duration := Some d\<rparr>, emit (Reply MsgAskColor) w))
    \<and> (\<not> reply_ok en (trace w) MsgAskColor \<longrightarrow>
          fst (get_duration en msg ud w) = Inl TelegramError))
   \<and> py_int (uc_space en) (uc_decimal en) (text_of (str_int d)) = Some d
   \<and> (num_clips en tot clip = Inl ZeroDivisionError) = (clip = 0)
   \<and> (num_clips en tot clip = Inl OverflowError) = (2 ^ 1024 - 2 ^ 970 \<le> \<bar>clip\<bar>)
   \<and> (clip \<noteq> 0 \<and> \<bar>clip\<bar> < 2 ^ 1024 - 2 ^ 970 \<longrightarrow>
        num_clips en tot clip
          = Inr \<lceil>round_double en (tot / round_double en (real_of_int clip))\<rceil>)
   \<and> (video_path ud = Some src \<and> duration ud = Some clip \<and> probe en src = Inr tot
        \<and> num_clips en tot clip = Inl e \<and> replies_ok en \<longrightarrow>
        announced (job_events en uid col ud w) = []
      \<and> windows (job_events en uid col ud w) = []
      \<and> errors_logged (job_events en uid col ud w) = [e]
      \<and> error_replies (job_events en uid col ud w) = [e])"
proof -
  have A: "py_int (uc_space en) (uc_decimal en) msg = None \<longrightarrow>
      fst (snd (get_duration en msg ud w)) = ud
    \<and> (reply_ok en (trace w) MsgInvalidNumber \<longrightarrow>
          get_duration en msg ud w = (Inr GET_DURATION, ud, emit (Reply MsgInvalidNumber) w))
    \<and> (\<not> reply_ok en (trace w) MsgInvalidNumber \<longrightarrow>
          fst (get_duration en msg ud w) = Inl TelegramError)"
    by (simp add: get_duration_def returning_def reply_text_def)
  have B: "py_int (uc_space en) (uc_decimal en) msg = Some d \<longrightarrow>
      fst (snd (get_duration en msg ud w)) = ud\<lparr>duration := Some d\<rparr>
    \<and> (reply_ok en (trace w) MsgAskColor \<longrightarrow>
          get_duration en msg ud w
            = (Inr GET_COLOR, ud\<lparr>duration := Some d\<rparr>, emit (Reply MsgAskColor) w))
    \<and> (\<not> reply_ok en (trace w) MsgAskColor \<longrightarrow>
          fst (get_duration en msg ud w) = Inl TelegramError)"
    by (simp add: get_duration_def returning_def reply_text_def)
  have big: "(0::int) < 2 ^ 1024 - 2 ^ 970"
    by simp
  have C: "(num_clips en tot clip = Inl ZeroDivisionError) = (clip = 0)"
    using big by (auto simp: num_clips_def)
  have D: "(num_clips en tot clip = Inl OverflowError) = (2 ^ 1024 - 2 ^ 970 \<le> \<bar>clip\<bar>)"
    by (simp add: num_clips_def)
  have E: "clip \<noteq> 0 \<and> \<bar>clip\<bar> < 2 ^ 1024 - 2 ^ 970 \<longrightarrow>
        num_clips en tot clip
          = Inr \<lceil>round_double en (tot / round_double en (real_of_int clip))\<rceil>"
    by (simp add: num_clips_def)
  have F: "video_path ud = Some src \<and> duration ud = Some clip \<and> probe en src = Inr tot
        \<and> num_clips en tot clip = Inl e \<and> replies_ok en \<longrightarrow>
        announced (job_events en uid col ud w) = []
      \<and> windows (job_events en uid col ud w) = []
      \<and> errors_logged (job_events en uid col ud w) = [e]
      \<and> error_replies (job_events en uid col ud w) = [e]"
  proof (intro impI, elim conjE)
    assume k: "video_path ud = Some src" "duration ud = Some clip"
      and p: "probe en src = Inr tot" "num_clips en tot clip = Inl e" and r: "replies_ok en"
    show "announced (job_events en uid col ud w) = []
      \<and> windows (job_events en uid col ud w) = []
      \<and> errors_logged (job_events en uid col ud w) = [e]
      \<and> error_replies (job_events en uid col ud w) = [e]"
      by (simp add: job_replies_ok(1) [OF k r] p)
  qed
  show ?thesis
    using A B C D E F py_int_str_int [of "uc_space en" "uc_decimal en" d] by blast
qed

text \<open>
  The texts \<open>abc\<close> and \<open>60\<close> behind the separator 0x1C are rejected; \<open>60\<close> behind a
  no-break space is read as 60 and stored; when Telegram takes no message the handler
  ends with that exception and nothing is stored; the clip lengths 0 and \<open>10 ^ 309\<close>
  make the planning fail, 60 gives three clips for 125 seconds; the job with the clip
  length 0 reports the division by zero and announces no part.
\<close>

theorem duration_validation_witness:
  "py_int (uc_space (env_all_ok 125)) (uc_decimal (env_all_ok 125)) (text_of ''abc'') = None
   \<and> get_duration (env_all_ok 125) (text_of ''abc'') (example_data 0) example_world
       = (Inr GET_DURATION, example_data 0, emit (Reply MsgInvalidNumber) example_world)
   \<and> get_duration (env_all_ok 125) [0x1C, 0x36, 0x30] (example_data 0) example_world
       = (Inr GET_DURATION, example_data 0, emit (Reply MsgInvalidNumber) example_world)
   \<and> get_duration (env_all_ok 125) [0xA0, 0x36, 0x30] (example_data 0) example_world
       = (Inr GET_COLOR, (example_data 0)\<lparr>duration := Some 60\<rparr>,
          emit (Reply MsgAskColor) example_world)
   \<and> fst (get_duration env_no_replies (text_of ''abc'') (example_data 0) example_world)
       = Inl TelegramError
   \<and> fst (snd (get_duration env_no_replies (text_of ''abc'') (example_data 0) example_world))
       = example_data 0
   \<and> fst (get_duration env_no_replies (text_of ''60'') (example_data 0) example_world)
       = Inl TelegramError
   \<and> num_clips (env_all_ok 125) 125 0 = Inl ZeroDivisionError
   \<and> num_clips (env_all_ok 125) 125 (10 ^ 309) = Inl OverflowError
   \<and> num_clips (env_all_ok 125) 125 60 = Inr 3
   \<and> announced (job_events (env_all_ok 125) 7 ''orange'' (example_data 0) example_world) = []
   \<and> errors_logged (job_events (env_all_ok 125) 7 ''orange'' (example_data 0) example_world)
       = [ZeroDivisionError]
   \<and> error_replies (job_events (env_all_ok 125) 7 ''orange'' (example_data 0) example_world)
       = [ZeroDivisionError]"
proof -
  have a: "py_int (uc_space (env_all_ok 125)) (uc_decimal (env_all_ok 125)) (text_of ''abc'') = None"
    and b: "py_int (uc_space (env_all_ok 125)) (uc_decimal (env_all_ok 125)) [0x1C, 0x36, 0x30] = None"
    and c: "py_int (uc_space (env_all_ok 125)) (uc_decimal (env_all_ok 125)) [0xA0, 0x36, 0x30]
        = Some 60"
    by (simp_all add: int_defs env_all_ok_def)
  have a': "py_int (uc_space env_no_replies) (uc_decimal env_no_replies) (text_of ''abc'') = None"
    and c': "py_int (uc_space env_no_replies) (uc_decimal env_no_replies) (text_of ''60'') = Some 60"
    by (simp_all add: int_defs env_no_replies_def env_all_ok_def)
  have r: "reply_ok (env_all_ok 125) (trace example_world) m" for m
    by (simp add: env_all_ok_def)
  have nr: "\<not> reply_ok env_no_replies (trace example_world) m" for m
    by (simp add: env_no_replies_def env_all_ok_def)
  have z: "(0::int) = 0" and big: "(2::int) ^ 1024 - 2 ^ 970 \<le> \<bar>10 ^ 309\<bar>"
    and ok: "(60::int) \<noteq> 0 \<and> \<bar>60::int\<bar> < 2 ^ 1024 - 2 ^ 970"
    by simp_all
  note T1 = duration_validation [where en = "env_all_ok 125" and msg = "text_of ''abc''"
      and ud = "example_data 0" and w = example_world and tot = 125 and clip = 0
      and src = "''video.mp4''" and e = ZeroDivisionError and uid = 7 and col = "''orange''"]
  note T2 = duration_validation [where en = "env_all_ok 125" and msg = "[0x1C, 0x36, 0x30]"
      and ud = "example_data 0" and w = example_world and tot = 125 and clip = "10 ^ 309"]
  note T3 = duration_validation [where en = "env_all_ok 125" and msg = "[0xA0, 0x36, 0x30]"
      and d = 60 and ud = "example_data 0" and w = example_world and tot = 125 and clip = 60]
  note T4 = duration_validation [where en = env_no_replies and msg = "text_of ''abc''"
      and ud = "example_data 0" and w = example_world]
  note T5 = duration_validation [where en = env_no_replies and msg = "text_of ''60''"
      and d = 60 and ud = "example_data 0" and w = example_world]
  have 1: "get_duration (env_all_ok 125) (text_of ''abc'') (example_data 0) example_world
       = (Inr GET_DURATION, example_data 0, emit (Reply MsgInvalidNumber) example_world)"
    using T1 [THEN conjunct1, THEN mp, OF a] r by blast
  have 2: "get_duration (env_all_ok 125) [0x1C, 0x36, 0x30] (example_data 0) example_world
       = (Inr GET_DURATION, example_data 0, emit (Reply MsgInvalidNumber) example_world)"
    using T2 [THEN conjunct1, THEN mp, OF b] r by blast
  have 3: "get_duration (env_all_ok 125) [0xA0, 0x36, 0x30] (example_data 0) example_world
       = (Inr GET_COLOR, (example_data 0)\<lparr>duration := Some 60\<rparr>,
          emit (Reply MsgAskColor) example_world)"
    using T3 [THEN conjunct2, THEN conjunct1, THEN mp, OF c] r by blast
  have 4: "fst (get_duration env_no_replies (text_of ''abc'') (example_data 0) example_world)
       = Inl TelegramError
     \<and> fst (snd (get_duration env_no_replies (text_of ''abc'') (example_data 0) example_world))
       = example_data 0"
    using T4 [THEN conjunct1, THEN mp, OF a'] nr by blast
  have 5: "fst (get_duration env_no_replies (text_of ''60'') (example_data 0) example_world)
       = Inl TelegramError"
    using T5 [THEN conjunct2, THEN conjunct1, THEN mp, OF c'] nr by blast
  have 6: "num_clips (env_all_ok 125) 125 0 = Inl ZeroDivisionError"
    using T1 z by blast
  have 7: "num_clips (env_all_ok 125) 125 (10 ^ 309) = Inl OverflowError"
    using T2 big by blast
  have "num_clips (env_all_ok 125) 125 60
      = Inr \<lceil>round_double (env_all_ok 125) (125 / round_double (env_all_ok 125) (real_of_int 60))\<rceil>"
    using T3 ok by blast
  then have 8: "num_clips (env_all_ok 125) 125 60 = Inr 3"
    by simp
  have k: "video_path (example_data 0) = Some ''video.mp4'' \<and> duration (example_data 0) = Some 0
      \<and> probe (env_all_ok 125) ''video.mp4'' = Inr 125
      \<and> num_clips (env_all_ok 125) 125 0 = Inl ZeroDivisionError \<and> replies_ok (env_all_ok 125)"
    using 6 by simp
  have 9: "announced (job_events (env_all_ok 125) 7 ''orange'' (example_data 0) example_world) = []
      \<and> errors_logged (job_events (env_all_ok 125) 7 ''orange'' (example_data 0) example_world)
          = [ZeroDivisionError]
      \<and> error_replies (job_events (env_all_ok 125) 7 ''orange'' (example_data 0) example_world)
          = [ZeroDivisionError]"
    using T1 k by blast
  show ?thesis
    using a 1 2 3 4 5 6 7 8 9 by (simp only: simp_thms)
qed

subsection \<open>C7: the clean-up when the deletion fails\<close>

text \<open>
  C7, as stated, fails on the code: a deletion failure is neither logged nor swallowed.
  Here the probe fails, which is logged and reported, and then the upload cannot be
  deleted: the clean-up raises, nothing more is logged, and the exception leaves the
  handler.
\<close>

theorem cleanup_raises_counterexample:
  "fst (session_cleanup env_probe_fails_locked (example_data 60) example_world)
     = Inl (OSError ''video.mp4'')
   \<and> fst (get_color_and_process env_probe_fails_locked 7 ''orange'' (example_data 60) example_world)
     = Inl (OSError ''video.mp4'')
   \<and> errors_logged (job_events env_probe_fails_locked 7 ''orange'' (example_data 60) example_world)
     = [ProbeError]
   \<and> ''video.mp4'' \<in> job_files env_probe_fails_locked 7 ''orange'' (example_data 60) example_world"
  by (simp add: job_events_def job_files_def new_events_def example_data_def example_world_def
      env_probe_fails_locked_def env_all_ok_def run_defs)

text \<open>
  C7, amended.  The clean-up succeeds when the source file does not exist, changing no
  file; so after a clean-up that succeeded, a second one succeeds and changes no file.
  When the file exists and can be deleted it is deleted.  When the file exists and its
  deletion fails, the clean-up logs nothing, leaves the file and raises the error, and
  a job whose last event is that failed deletion ends with the error leaving the
  handler.
\<close>

theorem session_cleanup_outcomes:
  assumes "video_path ud = Some src"
  shows "(src \<notin> files w \<longrightarrow>
            session_cleanup en ud w = (Inr (), emit (Exists src) w))
       \<and> (fst (session_cleanup en ud w) = Inr () \<longrightarrow>
            fst (session_cleanup en ud (snd (session_cleanup en ud w))) = Inr ()
          \<and> files (snd (session_cleanup en ud (snd (session_cleanup en ud w))))
              = files (snd (session_cleanup en ud w)))
       \<and> (src \<in> files w \<and> remove_ok en src \<longrightarrow>
            fst (session_cleanup en ud w) = Inr ()
          \<and> files (snd (session_cleanup en ud w)) = files w - {src})
       \<and> (src \<in> files w \<and> \<not> remove_ok en src \<longrightarrow>
            fst (session_cleanup en ud w) = Inl (OSError src)
          \<and> files (snd (session_cleanup en ud w)) = files w
          \<and> errors_logged (new_events w (snd (session_cleanup en ud w))) = [])
       \<and> (duration ud = Some clip \<and> title ud = Some ttl \<and> channel ud = Some chn
          \<and> last (job_events en uid col ud w) = RemoveFailed src \<longrightarrow>
            fst (get_color_and_process en uid col ud w) = Inl (OSError src))"
proof -
  note sc = session_cleanup_eq [OF assms]
  have A: "src \<notin> files w \<longrightarrow> session_cleanup en ud w = (Inr (), emit (Exists src) w)"
    by (simp add: sc emit_def)
  have B: "fst (session_cleanup en ud w) = Inr () \<longrightarrow>
            fst (session_cleanup en ud (snd (session_cleanup en ud w))) = Inr ()
          \<and> files (snd (session_cleanup en ud (snd (session_cleanup en ud w))))
              = files (snd (session_cleanup en ud w))"
    by (simp add: sc)
  have C: "src \<in> files w \<and> remove_ok en src \<longrightarrow>
            fst (session_cleanup en ud w) = Inr ()
          \<and> files (snd (session_cleanup en ud w)) = files w - {src}"
    by (simp add: sc)
  have D: "src \<in> files w \<and> \<not> remove_ok en src \<longrightarrow>
            fst (session_cleanup en ud w) = Inl (OSError src)
          \<and> files (snd (session_cleanup en ud w)) = files w
          \<and> errors_logged (new_events w (snd (session_cleanup en ud w))) = []"
    by (simp add: sc new_events_def)
  have E: "duration ud = Some clip \<and> title ud = Some ttl \<and> channel ud = Some chn
          \<and> last (job_events en uid col ud w) = RemoveFailed src \<longrightarrow>
            fst (get_color_and_process en uid col ud w) = Inl (OSError src)"
  proof (intro impI, elim conjE)
    assume l: "last (job_events en uid col ud w) = RemoveFailed src"
    show "fst (get_color_and_process en uid col ud w) = Inl (OSError src)"
    proof (cases "reply_ok en (trace w) MsgAllSet")
      case False
      then have "job_events en uid col ud w = [ReplyFailed MsgAllSet]"
        by (simp add: job_events_def new_events_def job_first_reply_fails)
      with l show ?thesis
        by simp
    next
      case True
      from job_shape [OF assms True, of uid col]
      obtain body rep where ev: "job_events en uid col ud w =
             Reply MsgAllSet # body @ rep @ Exists src #
               (if src \<in> files w then (if remove_ok en src then [Removed src] else [RemoveFailed src])
                else [])"
        and x: "src \<in> files w \<and> \<not> remove_ok en src \<longrightarrow>
              fst (get_color_and_process en uid col ud w) = Inl (OSError src)"
        by blast
      have "src \<in> files w \<and> \<not> remove_ok en src"
        using l by (simp add: ev split: if_splits)
      with x show ?thesis
        by simp
    qed
  qed
  show ?thesis
    using A B C D E by blast
qed

text \<open>
  The four cases at concrete inputs: no file, a file that is deleted, a second
  clean-up after the first, and a file that cannot be deleted.
\<close>

theorem session_cleanup_outcomes_witness:
  "session_cleanup (env_all_ok 125) (example_data 60) empty_world
     = (Inr (), emit (Exists ''video.mp4'') empty_world)
   \<and> fst (session_cleanup (env_all_ok 125) (example_data 60) example_world) = Inr ()
   \<and> files (snd (session_cleanup (env_all_ok 125) (example_data 60) example_world))
     = files example_world - {''video.mp4''}
   \<and> fst (session_cleanup (env_all_ok 125) (example_data 60)
            (snd (session_cleanup (env_all_ok 125) (example_data 60) example_world))) = Inr ()
   \<and> fst (session_cleanup env_locked (example_data 60) example_world) = Inl (OSError ''video.mp4'')
   \<and> errors_logged (new_events example_world
            (snd (session_cleanup env_locked (example_data 60) example_world))) = []
   \<and> fst (get_color_and_process env_locked 7 ''orange'' (example_data 60) example_world)
     = Inl (OSError ''video.mp4'')"
proof -
  have v: "video_path (example_data 60) = Some ''video.mp4''"
    by simp
  have k: "duration (example_data 60) = Some 60 \<and> title (example_data 60) = Some ''Best of Animated''
      \<and> channel (example_data 60) = Some ''@Alokchauhan1100''"
    by simp
  have no: "''video.mp4'' \<notin> files empty_world"
    by simp
  have yes: "''video.mp4'' \<in> files example_world"
    by simp
  have ok: "remove_ok (env_all_ok 125) ''video.mp4''"
    by simp
  have locked: "\<not> remove_ok env_locked ''video.mp4''"
    by (simp add: env_locked_def env_all_ok_def)
  have l: "last (job_events env_locked 7 ''orange'' (example_data 60) example_world)
      = RemoveFailed ''video.mp4''"
    by (simp add: job_events_def new_events_def example_data_def example_world_def
        env_locked_def env_all_ok_def run_defs)
  note T1 = session_cleanup_outcomes [OF v, where en = "env_all_ok 125" and w = empty_world]
  note T2 = session_cleanup_outcomes [OF v, where en = "env_all_ok 125" and w = example_world]
  note T3 = session_cleanup_outcomes [OF v, where en = env_locked and w = example_world
      and clip = 60 and ttl = "''Best of Animated''" and chn = "''@Alokchauhan1100''"
      and uid = 7 and col = "''orange''"]
  have a: "session_cleanup (env_all_ok 125) (example_data 60) empty_world
     = (Inr (), emit (Exists ''video.mp4'') empty_world)"
    using T1 no by (rule conjunct1 [THEN mp])
  have c: "fst (session_cleanup (env_all_ok 125) (example_data 60) example_world) = Inr ()
      \<and> files (snd (session_cleanup (env_all_ok 125) (example_data 60) example_world))
        = files example_world - {''video.mp4''}"
    using T2 yes ok by (simp only: simp_thms)
  then have b: "fst (session_cleanup (env_all_ok 125) (example_data 60)
            (snd (session_cleanup (env_all_ok 125) (example_data 60) example_world))) = Inr ()"
    using T2 by (simp only: simp_thms)
  have d: "fst (session_cleanup env_locked (example_data 60) example_world) = Inl (OSError ''video.mp4'')
      \<and> errors_logged (new_events example_world
            (snd (session_cleanup env_locked (example_data 60) example_world))) = []"
    using T3 yes locked by (simp only: simp_thms)
  have e: "fst (get_color_and_process env_locked 7 ''orange'' (example_data 60) example_world)
     = Inl (OSError ''video.mp4'')"
    using T3 k l by (simp only: simp_thms)
  show ?thesis
    using a b c d e by (simp only: simp_thms)
qed

subsection \<open>C8: the title layer\<close>


subsection \<open>C9: the part label\<close>


end
